theory Spec2Isabelle
  imports Main "HOL-Library.AList"
begin

section \<open>Values on the wire\<close>

text \<open>
  The Python values that \<^verbatim>\<open>json.loads\<close> produces: \<^verbatim>\<open>None\<close>, booleans, integers,
  floats (kept as mantissa and decimal exponent, never computed with), strings, lists and
  objects. An object keeps its members in the order of the text; \<open>dict_of\<close> turns it into
  the Python dict, where the last of several equal keys wins.
\<close>

datatype json =
    JNull
  | JBool bool
  | JInt int
  | JFloat int int
  | JStr string
  | JArr "json list"
  | JObj "(string \<times> json) list"

type_synonym dict = "string \<rightharpoonup> json"

definition dict_of :: "(string \<times> json) list \<Rightarrow> dict" where
  "dict_of kvs = map_of (rev kvs)"

text \<open>\<^verbatim>\<open>data.get(key)\<close>: the value, or \<^verbatim>\<open>None\<close> when the key is absent.\<close>

definition dict_get :: "dict \<Rightarrow> string \<Rightarrow> json" where
  "dict_get d k = (case d k of None \<Rightarrow> JNull | Some v \<Rightarrow> v)"

section \<open>Failures\<close>

text \<open>
  \<^verbatim>\<open>errors.py\<close>: \<^verbatim>\<open>DifyAPIError\<close> and its eighteen subclasses. Each instance stores
  the status, the code and the message it was built from.
\<close>

datatype error_kind =
    DifyAPIError
  | DifyInvalidParam
  | DifyNotChatApp
  | DifyResourceNotFound
  | DifyAppUnavailable
  | DifyProviderNotInitialize
  | DifyProviderQuotaExceeded
  | DifyModelCurrentlyNotSupport
  | DifyCompletionRequestError
  | DifyInternalServerError
  | DifyNoFileUploaded
  | DifyTooManyFiles
  | DifyUnsupportedPreview
  | DifyUnsupportedEstimate
  | DifyFileTooLarge
  | DifyUnsupportedFileType
  | DifyS3ConnectionFailed
  | DifyS3PermissionDenied
  | DifyS3FileTooLarge

record dify_error =
  kind :: error_kind
  status :: int
  code :: string
  message :: string

text \<open>
  Everything the modelled code can raise. \<open>InvalidEnumValue v\<close> is
  \<^verbatim>\<open>ValueError(f"Invalid enum value: {v}")\<close>; \<open>JSONDecodeError\<close> is what \<^verbatim>\<open>.json()\<close>
  raises on a text that is not JSON; \<open>TypeError\<close> is what \<^verbatim>\<open>**\<close> and item assignment
  raise on a decoded value that is not a dict; \<open>ValidationError\<close> is pydantic's;
  \<open>SSEError\<close> is the transport's own failure.
\<close>

datatype error =
    Dify dify_error
  | InvalidEnumValue json
  | JSONDecodeError
  | TypeError
  | ValidationError
  | SSEError

section \<open>The enum resolver (\<^verbatim>\<open>utils/_common.py\<close>)\<close>

text \<open>
  An enumeration class is its \<^verbatim>\<open>__members__\<close>: the (name, member) pairs in declaration
  order, with the function giving each member's value. The loop returns the first member
  whose value equals the argument. The argument is whatever the caller passes: a string
  compares equal to a value only when it is that very string, and a value that is not a
  string compares equal to none.
\<close>

fun find_member :: "('m \<Rightarrow> string) \<Rightarrow> (string \<times> 'm) list \<Rightarrow> json \<Rightarrow> 'm option" where
  "find_member val [] str_value = None"
| "find_member val ((key, member) # rest) str_value =
     (if str_value = JStr (val member) then Some member else find_member val rest str_value)"

text \<open>
  The result is the member, or \<^verbatim>\<open>enum_default\<close> (\<open>None\<close> is Python's \<^verbatim>\<open>None\<close>, the
  parameter's own default) when nothing matches and \<^verbatim>\<open>ignore_not_found\<close> is set.
\<close>

definition str_to_enum ::
  "('m \<Rightarrow> string) \<Rightarrow> (string \<times> 'm) list \<Rightarrow> json \<Rightarrow> bool \<Rightarrow> 'm option \<Rightarrow> error + 'm option" where
  "str_to_enum val str_enum_class str_value ignore_not_found enum_default =
     (case find_member val str_enum_class str_value of
        Some member \<Rightarrow> Inr (Some member)
      | None \<Rightarrow>
          if ignore_not_found then Inr enum_default
          else Inl (InvalidEnumValue str_value))"

section \<open>Stream event tags (\<^verbatim>\<open>models/stream.py\<close>)\<close>

datatype StreamEvent =
    MESSAGE
  | AGENT_MESSAGE
  | AGENT_THOUGHT
  | MESSAGE_FILE
  | WORKFLOW_STARTED
  | NODE_STARTED
  | NODE_FINISHED
  | WORKFLOW_FINISHED
  | MESSAGE_END
  | MESSAGE_REPLACE
  | ERROR
  | PING

fun StreamEvent_value :: "StreamEvent \<Rightarrow> string" where
  "StreamEvent_value MESSAGE = ''message''"
| "StreamEvent_value AGENT_MESSAGE = ''agent_message''"
| "StreamEvent_value AGENT_THOUGHT = ''agent_thought''"
| "StreamEvent_value MESSAGE_FILE = ''message_file''"
| "StreamEvent_value WORKFLOW_STARTED = ''workflow_started''"
| "StreamEvent_value NODE_STARTED = ''node_started''"
| "StreamEvent_value NODE_FINISHED = ''node_finished''"
| "StreamEvent_value WORKFLOW_FINISHED = ''workflow_finished''"
| "StreamEvent_value MESSAGE_END = ''message_end''"
| "StreamEvent_value MESSAGE_REPLACE = ''message_replace''"
| "StreamEvent_value ERROR = ''error''"
| "StreamEvent_value PING = ''ping''"

definition StreamEvent_members :: "(string \<times> StreamEvent) list" where
  "StreamEvent_members =
     [(''MESSAGE'', MESSAGE), (''AGENT_MESSAGE'', AGENT_MESSAGE),
      (''AGENT_THOUGHT'', AGENT_THOUGHT), (''MESSAGE_FILE'', MESSAGE_FILE),
      (''WORKFLOW_STARTED'', WORKFLOW_STARTED), (''NODE_STARTED'', NODE_STARTED),
      (''NODE_FINISHED'', NODE_FINISHED), (''WORKFLOW_FINISHED'', WORKFLOW_FINISHED),
      (''MESSAGE_END'', MESSAGE_END), (''MESSAGE_REPLACE'', MESSAGE_REPLACE),
      (''ERROR'', ERROR), (''PING'', PING)]"

text \<open>
  The argument of \<^verbatim>\<open>StreamEvent.new\<close> is either already a member of the class
  (\<^verbatim>\<open>isinstance(event, cls)\<close>) or a raw value from the wire.
\<close>

datatype event_arg = Member StreamEvent | Wire json

fun StreamEvent_new :: "event_arg \<Rightarrow> error + StreamEvent option" where
  "StreamEvent_new (Member event) = Inr (Some event)"
| "StreamEvent_new (Wire event) =
     str_to_enum StreamEvent_value StreamEvent_members event False None"

section \<open>The failure classifier (\<^verbatim>\<open>errors.py\<close>)\<close>

definition SPEC_CODE_ERRORS :: "(string \<times> error_kind) list" where
  "SPEC_CODE_ERRORS =
     [(''invalid_param'', DifyInvalidParam),
      (''not_chat_app'', DifyNotChatApp),
      (''app_unavailable'', DifyAppUnavailable),
      (''provider_not_initialize'', DifyProviderNotInitialize),
      (''provider_quota_exceeded'', DifyProviderQuotaExceeded),
      (''model_currently_not_support'', DifyModelCurrentlyNotSupport),
      (''completion_request_error'', DifyCompletionRequestError),
      (''no_file_uploaded'', DifyNoFileUploaded),
      (''too_many_files'', DifyTooManyFiles),
      (''unsupported_preview'', DifyUnsupportedPreview),
      (''unsupported_estimate'', DifyUnsupportedEstimate),
      (''file_too_large'', DifyFileTooLarge),
      (''unsupported_file_type'', DifyUnsupportedFileType),
      (''s3_connection_failed'', DifyS3ConnectionFailed),
      (''s3_permission_denied'', DifyS3PermissionDenied),
      (''s3_file_too_large'', DifyS3FileTooLarge)]"

text \<open>\<^verbatim>\<open>cls(status, code, message)\<close>: the constructor every kind inherits.\<close>

definition new_error :: "error_kind \<Rightarrow> int \<Rightarrow> string \<Rightarrow> string \<Rightarrow> dify_error" where
  "new_error k st c m = \<lparr>kind = k, status = st, code = c, message = m\<rparr>"

text \<open>
  The tail of \<^verbatim>\<open>raise_for_status\<close>, reached once \<^verbatim>\<open>details\<close> is built: it always
  raises, and what it raises depends on the three fields of \<^verbatim>\<open>details\<close> only.
\<close>

definition raise_details :: "int \<Rightarrow> string \<Rightarrow> string \<Rightarrow> dify_error" where
  "raise_details st c m =
     (if st = 404 then new_error DifyResourceNotFound st c m
      else if st = 500 then new_error DifyInternalServerError st c m
      else new_error
             (case map_of SPEC_CODE_ERRORS c of Some k \<Rightarrow> k | None \<Rightarrow> DifyAPIError)
             st c m)"

section \<open>The libraries the code calls\<close>

text \<open>
  Two libraries decide what a text or a value decodes to: \<^verbatim>\<open>json.loads\<close> (behind
  \<^verbatim>\<open>response.json()\<close> and \<^verbatim>\<open>sse.json()\<close>) and pydantic's validation of one value
  against one field annotation. Neither is code of this repository, so both are parameters
  of the model: \<open>json_loads\<close> gives \<open>None\<close> where the text is not JSON, \<open>validate\<close>
  gives \<open>None\<close> where pydantic rejects the value and the validated value otherwise.
  What the repository itself fixes (which fields a class declares, which are required,
  which defaults they have, what happens to undeclared keys, and the validator attached to
  \<^verbatim>\<open>event\<close>) is written out below.
\<close>

datatype annotation =
    TStr
  | TInt
  | TOptional annotation
  | TList annotation
  | TModel string
  | TUnion "annotation list"

type_synonym validator = "annotation \<Rightarrow> json \<Rightarrow> json option"

record library =
  json_loads :: "string \<Rightarrow> json option"
  validate :: validator

section \<open>Response models (\<^verbatim>\<open>models/base.py\<close>, \<^verbatim>\<open>models/stream.py\<close>)\<close>

text \<open>
  A declared field: its name, its annotation and its default (\<open>None\<close> when the class
  gives none, which makes the field required).
\<close>

type_synonym field = "string \<times> annotation \<times> json option"

datatype model_class =
    StreamResponse
  | PingResponse
  | ErrorStreamResponse
  | MessageStreamResponse
  | MessageEndStreamResponse
  | MessageReplaceStreamResponse
  | AgentMessageStreamResponse
  | AgentThoughtStreamResponse
  | MessageFileStreamResponse
  | WorkflowsStreamResponse
  | ChatWorkflowsStreamResponse

definition STREAM_EVENT_KEY :: string where
  "STREAM_EVENT_KEY = ''event''"

text \<open>\<^verbatim>\<open>status: int = HTTPStatus.INTERNAL_SERVER_ERROR\<close>, and two strings defaulting to empty.\<close>

definition ErrorResponse_fields :: "field list" where
  "ErrorResponse_fields =
     [(''status'', TInt, Some (JInt 500)),
      (''code'', TStr, Some (JStr [])),
      (''message'', TStr, Some (JStr []))]"

text \<open>
  The fields of \<^verbatim>\<open>StreamResponse\<close> besides \<^verbatim>\<open>event\<close>, which has a validator of its
  own and is treated in \<open>model_init\<close>.
\<close>

definition StreamResponse_fields :: "field list" where
  "StreamResponse_fields = [(''task_id'', TOptional TStr, Some (JStr []))]"

definition MessageStreamResponse_fields :: "field list" where
  "MessageStreamResponse_fields =
     StreamResponse_fields @
     [(''message_id'', TStr, None),
      (''conversation_id'', TOptional TStr, Some (JStr [])),
      (''answer'', TStr, None),
      (''created_at'', TInt, None)]"

definition WorkflowsStreamResponse_fields :: "field list" where
  "WorkflowsStreamResponse_fields =
     StreamResponse_fields @
     [(''workflow_run_id'', TStr, None),
      (''data'',
       TOptional (TUnion [TModel ''WorkflowStartedData'', TModel ''WorkflowFinishedData'',
                          TModel ''NodeStartedData'', TModel ''NodeFinishedData'']),
       None)]"

fun model_fields :: "model_class \<Rightarrow> field list" where
  "model_fields StreamResponse = StreamResponse_fields"
| "model_fields PingResponse = StreamResponse_fields"
| "model_fields ErrorStreamResponse =
     ErrorResponse_fields @ StreamResponse_fields @
     [(''message_id'', TOptional TStr, Some (JStr []))]"
| "model_fields MessageStreamResponse = MessageStreamResponse_fields"
| "model_fields MessageEndStreamResponse =
     StreamResponse_fields @
     [(''message_id'', TStr, None),
      (''conversation_id'', TOptional TStr, Some (JStr [])),
      (''created_at'', TInt, None),
      (''metadata'', TOptional (TModel ''Metadata''), None)]"
| "model_fields MessageReplaceStreamResponse = MessageStreamResponse_fields"
| "model_fields AgentMessageStreamResponse = MessageStreamResponse_fields"
| "model_fields AgentThoughtStreamResponse =
     StreamResponse_fields @
     [(''id'', TStr, None),
      (''message_id'', TStr, None),
      (''conversation_id'', TStr, None),
      (''position'', TInt, None),
      (''thought'', TStr, None),
      (''observation'', TStr, None),
      (''tool'', TStr, None),
      (''tool_input'', TStr, None),
      (''message_files'', TList TStr, Some (JArr [])),
      (''created_at'', TInt, None)]"
| "model_fields MessageFileStreamResponse =
     StreamResponse_fields @
     [(''id'', TStr, None),
      (''conversation_id'', TStr, None),
      (''type'', TStr, None),
      (''belongs_to'', TStr, None),
      (''url'', TStr, None)]"
| "model_fields WorkflowsStreamResponse = WorkflowsStreamResponse_fields"
| "model_fields ChatWorkflowsStreamResponse =
     WorkflowsStreamResponse_fields @
     [(''message_id'', TStr, None),
      (''conversation_id'', TStr, None),
      (''created_at'', TInt, None)]"

text \<open>The keys a class declares: \<^verbatim>\<open>event\<close> and the fields above.\<close>

definition declared :: "model_class \<Rightarrow> string set" where
  "declared c = set (STREAM_EVENT_KEY # map fst (model_fields c))"

text \<open>
  Validation of the declared fields against the keyword arguments: a key that is present
  is validated against the annotation, an absent one takes the default as it is, and an
  absent one without default fails. The result maps each field to its validated value.
\<close>

fun validate_fields :: "validator \<Rightarrow> field list \<Rightarrow> dict \<Rightarrow> dict option" where
  "validate_fields V [] d = Some Map.empty"
| "validate_fields V ((name, ann, dflt) # fs) d =
     (case (case d name of Some v \<Rightarrow> V ann v | None \<Rightarrow> dflt) of
        None \<Rightarrow> None
      | Some v' \<Rightarrow>
          (case validate_fields V fs d of
             None \<Rightarrow> None
           | Some m \<Rightarrow> Some (m(name \<mapsto> v'))))"

text \<open>
  An instance of \<^verbatim>\<open>StreamResponse\<close> or of a subclass: its class, its tag, the validated
  fields, and the undeclared keys, which \<^verbatim>\<open>ConfigDict(extra='allow')\<close> keeps as they came.
\<close>

record stream_response =
  cls :: model_class
  event :: StreamEvent
  field_values :: dict
  model_extra :: dict

text \<open>
  \<^verbatim>\<open>cls(**data)\<close>. The validator \<^verbatim>\<open>transform_stream_event\<close> runs before validation
  of \<^verbatim>\<open>event\<close> and hands the raw value to \<^verbatim>\<open>StreamEvent.new\<close>; pydantic turns the
  \<^verbatim>\<open>ValueError\<close> of an unknown tag, like every other failure of a field, into its
  \<^verbatim>\<open>ValidationError\<close>.
\<close>

definition model_init :: "validator \<Rightarrow> model_class \<Rightarrow> dict \<Rightarrow> error + stream_response" where
  "model_init V c d =
     (case d STREAM_EVENT_KEY of
        None \<Rightarrow> Inl ValidationError
      | Some v \<Rightarrow>
          (case StreamEvent_new (Wire v) of
             Inl e \<Rightarrow> Inl ValidationError
           | Inr None \<Rightarrow> Inl ValidationError
           | Inr (Some ev) \<Rightarrow>
               (case validate_fields V (model_fields c) d of
                  None \<Rightarrow> Inl ValidationError
                | Some fs \<Rightarrow>
                    Inr \<lparr>cls = c, event = ev, field_values = fs,
                         model_extra = d |` (- declared c)\<rparr>)))"

text \<open>
  The three attributes \<^verbatim>\<open>raise_for_status\<close> reads from \<^verbatim>\<open>details\<close>: an int and two
  strings, as the annotations say.
\<close>

definition details_of :: "dict \<Rightarrow> (int \<times> string \<times> string) option" where
  "details_of fs =
     (case (fs ''status'', fs ''code'', fs ''message'') of
        (Some (JInt st), Some (JStr c), Some (JStr m)) \<Rightarrow> Some (st, c, m)
      | _ \<Rightarrow> None)"

text \<open>\<^verbatim>\<open>models.ErrorResponse(**json)\<close>: a plain model, undeclared keys are ignored.\<close>

definition ErrorResponse_init :: "validator \<Rightarrow> dict \<Rightarrow> error + int \<times> string \<times> string" where
  "ErrorResponse_init V d =
     (case validate_fields V ErrorResponse_fields d of
        None \<Rightarrow> Inl ValidationError
      | Some fs \<Rightarrow>
          (case details_of fs of None \<Rightarrow> Inl ValidationError | Some t \<Rightarrow> Inr t))"

text \<open>\<^verbatim>\<open>models.ErrorStreamResponse(**sse.json())\<close>.\<close>

definition ErrorStreamResponse_init ::
  "validator \<Rightarrow> dict \<Rightarrow> error + stream_response \<times> int \<times> string \<times> string" where
  "ErrorStreamResponse_init V d =
     (case model_init V ErrorStreamResponse d of
        Inl e \<Rightarrow> Inl e
      | Inr r \<Rightarrow>
          (case details_of (field_values r) of
             None \<Rightarrow> Inl ValidationError
           | Some t \<Rightarrow> Inr (r, t)))"

section \<open>The dispatch tables (\<^verbatim>\<open>models/stream.py\<close>)\<close>

definition COMPLETION_EVENT_TO_STREAM_RESP_MAPPING :: "(StreamEvent \<times> model_class) list" where
  "COMPLETION_EVENT_TO_STREAM_RESP_MAPPING =
     [(PING, PingResponse),
      (MESSAGE, MessageStreamResponse),
      (MESSAGE_END, MessageEndStreamResponse),
      (MESSAGE_REPLACE, MessageReplaceStreamResponse)]"

definition CHAT_EVENT_TO_STREAM_RESP_MAPPING :: "(StreamEvent \<times> model_class) list" where
  "CHAT_EVENT_TO_STREAM_RESP_MAPPING =
     [(PING, PingResponse),
      (MESSAGE, MessageStreamResponse),
      (MESSAGE_END, MessageEndStreamResponse),
      (MESSAGE_REPLACE, MessageReplaceStreamResponse),
      (MESSAGE_FILE, MessageFileStreamResponse),
      (AGENT_MESSAGE, AgentMessageStreamResponse),
      (AGENT_THOUGHT, AgentThoughtStreamResponse),
      (WORKFLOW_STARTED, WorkflowsStreamResponse),
      (NODE_STARTED, WorkflowsStreamResponse),
      (NODE_FINISHED, WorkflowsStreamResponse),
      (WORKFLOW_FINISHED, WorkflowsStreamResponse)]"

definition WORKFLOW_EVENT_TO_STREAM_RESP_MAPPING :: "(StreamEvent \<times> model_class) list" where
  "WORKFLOW_EVENT_TO_STREAM_RESP_MAPPING =
     [(PING, PingResponse),
      (WORKFLOW_STARTED, WorkflowsStreamResponse),
      (NODE_STARTED, WorkflowsStreamResponse),
      (NODE_FINISHED, WorkflowsStreamResponse),
      (WORKFLOW_FINISHED, WorkflowsStreamResponse)]"

text \<open>
  \<^verbatim>\<open>mapping.get(event, StreamResponse)\<close>. The key is what \<^verbatim>\<open>StreamEvent.new\<close> returned;
  \<^verbatim>\<open>None\<close> is the key of no entry.
\<close>

definition mapping_get ::
  "(StreamEvent \<times> model_class) list \<Rightarrow> StreamEvent option \<Rightarrow> model_class \<Rightarrow> model_class" where
  "mapping_get mapping ev dflt =
     (case ev of
        None \<Rightarrow> dflt
      | Some e \<Rightarrow> (case map_of mapping e of None \<Rightarrow> dflt | Some c \<Rightarrow> c))"

text \<open>
  The three \<^verbatim>\<open>build_*_stream_response\<close> functions have one body and differ in the table.
\<close>

definition build_stream_response ::
  "(StreamEvent \<times> model_class) list \<Rightarrow> validator \<Rightarrow> dict \<Rightarrow> error + stream_response" where
  "build_stream_response mapping V d =
     (case StreamEvent_new (Wire (dict_get d STREAM_EVENT_KEY)) of
        Inl e \<Rightarrow> Inl e
      | Inr ev \<Rightarrow> model_init V (mapping_get mapping ev StreamResponse) d)"

definition build_completion_stream_response :: "validator \<Rightarrow> dict \<Rightarrow> error + stream_response" where
  "build_completion_stream_response =
     build_stream_response COMPLETION_EVENT_TO_STREAM_RESP_MAPPING"

definition build_chat_stream_response :: "validator \<Rightarrow> dict \<Rightarrow> error + stream_response" where
  "build_chat_stream_response = build_stream_response CHAT_EVENT_TO_STREAM_RESP_MAPPING"

definition build_workflows_stream_response :: "validator \<Rightarrow> dict \<Rightarrow> error + stream_response" where
  "build_workflows_stream_response =
     build_stream_response WORKFLOW_EVENT_TO_STREAM_RESP_MAPPING"

section \<open>Responses, events and \<^verbatim>\<open>raise_for_status\<close> (\<^verbatim>\<open>errors.py\<close>)\<close>

text \<open>
  What the code reads of an \<^verbatim>\<open>httpx.Response\<close>: the status code, the value of
  \<^verbatim>\<open>headers.get("content-type", "")\<close>, and the body text that \<^verbatim>\<open>.json()\<close> decodes.
\<close>

record response =
  status_code :: int
  content_type :: string
  body :: string

definition is_success :: "response \<Rightarrow> bool" where
  "is_success r = (200 \<le> status_code r \<and> status_code r \<le> 299)"

text \<open>What the code reads of a \<^verbatim>\<open>ServerSentEvent\<close>: \<^verbatim>\<open>sse.event\<close> and \<^verbatim>\<open>sse.data\<close>.\<close>

record ServerSentEvent =
  sse_event :: string
  sse_data :: string

text \<open>
  The branch of \<^verbatim>\<open>raise_for_status\<close> for an \<^verbatim>\<open>httpx.Response\<close>. \<open>Inr ()\<close> is a
  normal return. A decoded body that is not a dict fails in the membership test, in the
  item assignment or in \<^verbatim>\<open>**\<close>, each time with a \<^verbatim>\<open>TypeError\<close>.
\<close>

definition raise_for_status_response :: "library \<Rightarrow> response \<Rightarrow> error + unit" where
  "raise_for_status_response L resp =
     (if is_success resp then Inr ()
      else
        (case json_loads L (body resp) of
           None \<Rightarrow> Inl JSONDecodeError
         | Some (JObj kvs) \<Rightarrow>
             (let json = dict_of kvs;
                  json' = (if json ''status'' = None
                           then json(''status'' \<mapsto> JInt (status_code resp))
                           else json)
              in case ErrorResponse_init (validate L) json' of
                   Inl e \<Rightarrow> Inl e
                 | Inr (st, c, m) \<Rightarrow> Inl (Dify (raise_details st c m)))
         | Some _ \<Rightarrow> Inl TypeError))"

text \<open>The branch for a \<^verbatim>\<open>ServerSentEvent\<close>.\<close>

definition raise_for_status_sse :: "library \<Rightarrow> ServerSentEvent \<Rightarrow> error + unit" where
  "raise_for_status_sse L sse =
     (if sse_event sse \<noteq> StreamEvent_value ERROR then Inr ()
      else
        (case json_loads L (sse_data sse) of
           None \<Rightarrow> Inl JSONDecodeError
         | Some (JObj kvs) \<Rightarrow>
             (case ErrorStreamResponse_init (validate L) (dict_of kvs) of
                Inl e \<Rightarrow> Inl e
              | Inr (r, st, c, m) \<Rightarrow> Inl (Dify (raise_details st c m)))
         | Some _ \<Rightarrow> Inl TypeError))"

section \<open>The streaming pipeline (\<^verbatim>\<open>_clientx.py\<close>)\<close>

definition IGNORED_STREAM_EVENTS :: "string list" where
  "IGNORED_STREAM_EVENTS = [StreamEvent_value PING]"

text \<open>\<^verbatim>\<open>needle in haystack\<close> on strings.\<close>

fun str_in :: "string \<Rightarrow> string \<Rightarrow> bool" where
  "str_in needle [] = (needle = [])"
| "str_in needle (c # cs) =
     (take (length needle) (c # cs) = needle \<or> str_in needle cs)"

text \<open>\<^verbatim>\<open>headers.get("content-type", "").partition(";")[0]\<close>\<close>

definition get_content_type :: "response \<Rightarrow> string" where
  "get_content_type r = takeWhile (\<lambda>c. c \<noteq> CHR '';'') (content_type r)"

definition check_stream_content_type :: "response \<Rightarrow> bool" where
  "check_stream_content_type r =
     (is_success r \<and> str_in ''text/event-stream'' (get_content_type r))"

text \<open>
  A generator, run to its end, is the list of what it yielded and the exception that ended
  it, if one did. The transport's \<^verbatim>\<open>iter_sse()\<close> is such a generator and an input of the
  model. The loop of \<^verbatim>\<open>request_stream\<close> (and, word for word, of \<^verbatim>\<open>arequest_stream\<close>)
  takes each event through \<^verbatim>\<open>raise_for_status\<close>, then through the test against
  \<^verbatim>\<open>IGNORED_STREAM_EVENTS\<close>, then yields it.
\<close>

type_synonym 'a generator = "'a list \<times> error option"

fun iter_events :: "library \<Rightarrow> ServerSentEvent generator \<Rightarrow> ServerSentEvent generator" where
  "iter_events L ([], ended) = ([], ended)"
| "iter_events L (sse # rest, ended) =
     (case raise_for_status_sse L sse of
        Inl e \<Rightarrow> ([], Some e)
      | Inr _ \<Rightarrow>
          if sse_event sse \<in> set IGNORED_STREAM_EVENTS \<or> sse_data sse \<in> set IGNORED_STREAM_EVENTS
          then iter_events L (rest, ended)
          else (sse # fst (iter_events L (rest, ended)), snd (iter_events L (rest, ended))))"

text \<open>
  A run of \<^verbatim>\<open>request_stream\<close> after the connection is open: what it yielded, what it
  raised, whether it called \<^verbatim>\<open>response.read()\<close>, and whether it reached \<^verbatim>\<open>iter_sse()\<close>.
\<close>

record stream_run =
  yielded :: "ServerSentEvent list"
  raised :: "error option"
  body_read :: bool
  iter_sse_called :: bool

definition request_stream ::
  "library \<Rightarrow> response \<Rightarrow> ServerSentEvent generator \<Rightarrow> stream_run" where
  "request_stream L resp source =
     (if \<not> check_stream_content_type resp then
        (case raise_for_status_response L resp of
           Inl e \<Rightarrow> \<lparr>yielded = [], raised = Some e, body_read = True, iter_sse_called = False\<rparr>
         | Inr _ \<Rightarrow>
             \<lparr>yielded = fst (iter_events L source), raised = snd (iter_events L source),
              body_read = True, iter_sse_called = True\<rparr>)
      else
        \<lparr>yielded = fst (iter_events L source), raised = snd (iter_events L source),
         body_read = False, iter_sse_called = True\<rparr>)"

section \<open>Request headers (\<^verbatim>\<open>_clientx.py\<close>)\<close>

text \<open>
  \<^verbatim>\<open>key.lower()\<close>. Only the letters A to Z have a lower-case form that occurs in
  \<^verbatim>\<open>authorization\<close>, so the comparison below is decided by them.
\<close>

definition char_lower :: "char \<Rightarrow> char" where
  "char_lower c =
     (case map_of (zip ''ABCDEFGHIJKLMNOPQRSTUVWXYZ'' ''abcdefghijklmnopqrstuvwxyz'') c of
        Some l \<Rightarrow> l
      | None \<Rightarrow> c)"

definition str_lower :: "string \<Rightarrow> string" where
  "str_lower s = map char_lower s"

text \<open>
  A header dict is the list of its items in insertion order, keys distinct;
  \<^verbatim>\<open>headers[k] = v\<close> replaces the value of an existing key and appends a new one.
\<close>

type_synonym headers = "(string \<times> string) list"

definition prepare_auth_headers :: "string \<Rightarrow> headers \<Rightarrow> headers" where
  "prepare_auth_headers api_key hs =
     (if ''authorization'' \<notin> set (map (\<lambda>key. str_lower key) (map fst hs))
      then AList.update ''Authorization'' (''Bearer '' @ api_key) hs
      else hs)"

text \<open>
  The first three statements of \<^verbatim>\<open>request\<close> and \<^verbatim>\<open>request_stream\<close>: a fresh dict, the
  caller's headers copied into it when there are any, then the authorization header.
\<close>

definition merged_headers :: "string \<Rightarrow> headers option \<Rightarrow> headers" where
  "merged_headers api_key hs =
     prepare_auth_headers api_key (case hs of None \<Rightarrow> [] | Some h \<Rightarrow> h)"

section \<open>The tables as the specification words them\<close>

text \<open>
  The shape each family declares for each tag, written from the specification's tables
  (completion: ping, message, message_end, message_replace; chat: those and message_file,
  agent_message, agent_thought and the four workflow tags; workflow: ping and the four
  workflow tags; everything else the generic shape), to be compared with the lookup the
  code makes.
\<close>

fun spec_completion_shape :: "StreamEvent \<Rightarrow> model_class" where
  "spec_completion_shape PING = PingResponse"
| "spec_completion_shape MESSAGE = MessageStreamResponse"
| "spec_completion_shape MESSAGE_END = MessageEndStreamResponse"
| "spec_completion_shape MESSAGE_REPLACE = MessageReplaceStreamResponse"
| "spec_completion_shape _ = StreamResponse"

fun spec_chat_shape :: "StreamEvent \<Rightarrow> model_class" where
  "spec_chat_shape PING = PingResponse"
| "spec_chat_shape MESSAGE = MessageStreamResponse"
| "spec_chat_shape MESSAGE_END = MessageEndStreamResponse"
| "spec_chat_shape MESSAGE_REPLACE = MessageReplaceStreamResponse"
| "spec_chat_shape MESSAGE_FILE = MessageFileStreamResponse"
| "spec_chat_shape AGENT_MESSAGE = AgentMessageStreamResponse"
| "spec_chat_shape AGENT_THOUGHT = AgentThoughtStreamResponse"
| "spec_chat_shape WORKFLOW_STARTED = WorkflowsStreamResponse"
| "spec_chat_shape NODE_STARTED = WorkflowsStreamResponse"
| "spec_chat_shape NODE_FINISHED = WorkflowsStreamResponse"
| "spec_chat_shape WORKFLOW_FINISHED = WorkflowsStreamResponse"
| "spec_chat_shape _ = StreamResponse"

fun spec_workflows_shape :: "StreamEvent \<Rightarrow> model_class" where
  "spec_workflows_shape PING = PingResponse"
| "spec_workflows_shape WORKFLOW_STARTED = WorkflowsStreamResponse"
| "spec_workflows_shape NODE_STARTED = WorkflowsStreamResponse"
| "spec_workflows_shape NODE_FINISHED = WorkflowsStreamResponse"
| "spec_workflows_shape WORKFLOW_FINISHED = WorkflowsStreamResponse"
| "spec_workflows_shape _ = StreamResponse"

section \<open>A concrete library for evaluation\<close>

text \<open>
  Closed evaluations need a concrete decoder and a concrete validator. \<open>loads_sample\<close>
  agrees with \<^verbatim>\<open>json.loads\<close> on the texts it is applied to in this theory: the two
  objects below, and \<^verbatim>\<open>ping\<close>, which is not a JSON text. \<open>validate_plain\<close> agrees with
  pydantic on the annotations \<^verbatim>\<open>str\<close>, \<^verbatim>\<open>int\<close> and \<^verbatim>\<open>Optional[...]\<close> of these for
  the values used here: a string field takes a string and no number, an int field takes
  an int, an optional field takes \<^verbatim>\<open>None\<close> as well. Every theorem below that is not an
  evaluation holds for all libraries.
\<close>

definition error_event_text :: string where
  \<open>error_event_text = ''{"event": "error", "code": "invalid_param", "message": "bad"}''\<close>

definition error_body_text :: string where
  \<open>error_body_text = ''{"code": "invalid_param", "message": "bad"}''\<close>

definition loads_sample :: "string \<Rightarrow> json option" where
  "loads_sample s =
     (if s = error_event_text then
        Some (JObj [(''event'', JStr ''error''), (''code'', JStr ''invalid_param''),
                    (''message'', JStr ''bad'')])
      else if s = error_body_text then
        Some (JObj [(''code'', JStr ''invalid_param''), (''message'', JStr ''bad'')])
      else None)"

fun validate_plain :: validator where
  "validate_plain TStr (JStr s) = Some (JStr s)"
| "validate_plain TInt (JInt i) = Some (JInt i)"
| "validate_plain (TOptional a) JNull = Some JNull"
| "validate_plain (TOptional a) v = validate_plain a v"
| "validate_plain a v = None"

definition sample_library :: library where
  "sample_library = \<lparr>json_loads = loads_sample, validate = validate_plain\<rparr>"

section \<open>The resolver\<close>

lemma find_member_in:
  "find_member val ms x = Some m \<Longrightarrow> m \<in> snd ` set ms \<and> x = JStr (val m)"
  by (induction val ms x rule: find_member.induct) (auto split: if_splits)

lemma find_member_none:
  "find_member val ms x = None \<longleftrightarrow> (\<forall>m \<in> snd ` set ms. x \<noteq> JStr (val m))"
  by (induction val ms x rule: find_member.induct) auto

lemma find_member_inj:
  assumes "m \<in> snd ` set ms" and "inj_on val (snd ` set ms)"
  shows "find_member val ms (JStr (val m)) = Some m"
proof (cases "find_member val ms (JStr (val m))")
  case None
  then have "\<forall>m' \<in> snd ` set ms. JStr (val m) \<noteq> JStr (val m')"
    by (simp only: find_member_none)
  with assms(1) show ?thesis by blast
next
  case (Some m')
  from find_member_in [OF Some] have in': "m' \<in> snd ` set ms" and eq: "val m = val m'"
    by simp_all
  from inj_onD [OF assms(2) eq assms(1) in'] Some show ?thesis by simp
qed

lemma StreamEvent_value_inj: "inj StreamEvent_value"
proof (rule injI)
  fix a b
  assume "StreamEvent_value a = StreamEvent_value b"
  then show "a = b" by (cases a; cases b; simp)
qed

lemma StreamEvent_members_all: "snd ` set StreamEvent_members = UNIV"
proof -
  have "e \<in> snd ` set StreamEvent_members" for e
    by (cases e) (simp_all add: StreamEvent_members_def)
  then show ?thesis by blast
qed

lemma find_member_StreamEvent:
  "find_member StreamEvent_value StreamEvent_members (JStr (StreamEvent_value e)) = Some e"
proof (rule find_member_inj)
  show "e \<in> snd ` set StreamEvent_members"
    by (simp add: StreamEvent_members_all)
  show "inj_on StreamEvent_value (snd ` set StreamEvent_members)"
    using StreamEvent_value_inj by (simp add: StreamEvent_members_all)
qed

lemma StreamEvent_new_Wire_Some:
  "StreamEvent_new (Wire v) = Inr r \<Longrightarrow> \<exists>e. r = Some e \<and> v = JStr (StreamEvent_value e)"
proof -
  assume a: "StreamEvent_new (Wire v) = Inr r"
  then obtain e where f: "find_member StreamEvent_value StreamEvent_members v = Some e"
    by (cases "find_member StreamEvent_value StreamEvent_members v")
       (simp_all add: str_to_enum_def)
  with a have "r = Some e" by (simp add: str_to_enum_def)
  moreover from f have "v = JStr (StreamEvent_value e)"
    using find_member_in by fastforce
  ultimately show ?thesis by blast
qed

lemma StreamEvent_new_value:
  "StreamEvent_new (Wire (JStr (StreamEvent_value e))) = Inr (Some e)"
  by (simp add: str_to_enum_def find_member_StreamEvent)

lemma StreamEvent_members_inj: "inj_on StreamEvent_value (snd ` set StreamEvent_members)"
  using StreamEvent_value_inj by (simp add: StreamEvent_members_all)

lemma no_member_Ping: "\<forall>m \<in> snd ` set StreamEvent_members. StreamEvent_value m \<noteq> ''Ping''"
  by (simp add: StreamEvent_members_def)

text \<open>
  Claim C5. For every enumeration (its members \<open>ms\<close> with the value function \<open>val\<close>) and
  every string \<open>s\<close>: when some member has the value \<open>s\<close>, the resolver returns a member
  with exactly that value, in either mode; when the values of the members are pairwise
  different, as they are in an enumeration, it returns the member itself. When no member
  has the value \<open>s\<close>, strict mode fails with the error that carries \<open>s\<close>, and tolerant
  mode returns the default the caller gave. Values are compared as whole strings, so the
  match is exact and case-sensitive.
\<close>

theorem str_to_enum_resolves:
  "((\<exists>m \<in> snd ` set ms. val m = s) \<longrightarrow>
      (\<exists>m \<in> snd ` set ms. val m = s \<and>
         str_to_enum val ms (JStr s) ignore_not_found enum_default = Inr (Some m)))
   \<and> (m \<in> snd ` set ms \<and> inj_on val (snd ` set ms) \<longrightarrow>
      str_to_enum val ms (JStr (val m)) ignore_not_found enum_default = Inr (Some m))
   \<and> ((\<forall>m \<in> snd ` set ms. val m \<noteq> s) \<longrightarrow>
      str_to_enum val ms (JStr s) False enum_default = Inl (InvalidEnumValue (JStr s))
      \<and> str_to_enum val ms (JStr s) True enum_default = Inr enum_default)"
proof (intro conjI impI)
  assume "\<exists>m \<in> snd ` set ms. val m = s"
  then have "find_member val ms (JStr s) \<noteq> None"
    by (auto simp: find_member_none)
  then obtain m' where f: "find_member val ms (JStr s) = Some m'" by blast
  from find_member_in [OF f] have "m' \<in> snd ` set ms" and "val m' = s" by simp_all
  with f show "\<exists>m \<in> snd ` set ms. val m = s \<and>
      str_to_enum val ms (JStr s) ignore_not_found enum_default = Inr (Some m)"
    by (auto simp: str_to_enum_def)
next
  assume "m \<in> snd ` set ms \<and> inj_on val (snd ` set ms)"
  then show "str_to_enum val ms (JStr (val m)) ignore_not_found enum_default = Inr (Some m)"
    by (simp add: str_to_enum_def find_member_inj)
next
  assume "\<forall>m \<in> snd ` set ms. val m \<noteq> s"
  then have n: "find_member val ms (JStr s) = None"
    by (auto simp: find_member_none)
  from n show "str_to_enum val ms (JStr s) False enum_default = Inl (InvalidEnumValue (JStr s))"
    by (simp add: str_to_enum_def)
  from n show "str_to_enum val ms (JStr s) True enum_default = Inr enum_default"
    by (simp add: str_to_enum_def)
qed

text \<open>
  On the stream tags: \<^verbatim>\<open>ping\<close> resolves to \<open>PING\<close>, and \<^verbatim>\<open>Ping\<close>, which differs in
  case only, fails in strict mode and gives the default in tolerant mode.
\<close>

theorem str_to_enum_resolves_witness:
  "PING \<in> snd ` set StreamEvent_members
   \<and> inj_on StreamEvent_value (snd ` set StreamEvent_members)
   \<and> str_to_enum StreamEvent_value StreamEvent_members (JStr ''ping'') False None = Inr (Some PING)
   \<and> ''Ping'' \<notin> StreamEvent_value ` snd ` set StreamEvent_members
   \<and> str_to_enum StreamEvent_value StreamEvent_members (JStr ''Ping'') False (Some MESSAGE)
       = Inl (InvalidEnumValue (JStr ''Ping''))
   \<and> str_to_enum StreamEvent_value StreamEvent_members (JStr ''Ping'') True (Some MESSAGE)
       = Inr (Some MESSAGE)"
  using str_to_enum_resolves [where ms = StreamEvent_members and val = StreamEvent_value
      and s = "''Ping''" and m = PING and ignore_not_found = False and enum_default = "Some MESSAGE"]
    str_to_enum_resolves [where ms = StreamEvent_members and val = StreamEvent_value
      and s = "''Ping''" and m = PING and ignore_not_found = False and enum_default = None]
    StreamEvent_members_inj no_member_Ping
  by (auto simp: StreamEvent_members_all)

text \<open>
  Claim C8. \<^verbatim>\<open>StreamEvent.new\<close> returns a tag that is already resolved as it is, so for
  every string \<open>s\<close> that resolves, resolving the result again gives the result of
  resolving \<open>s\<close>.
\<close>

theorem StreamEvent_new_idempotent:
  "StreamEvent_new (Member e) = Inr (Some e)
   \<and> (StreamEvent_new (Wire (JStr s)) = Inr r \<longrightarrow>
        (\<exists>e'. r = Some e' \<and> StreamEvent_new (Member e') = StreamEvent_new (Wire (JStr s))))"
  using StreamEvent_new_Wire_Some by fastforce

theorem StreamEvent_new_idempotent_witness:
  "StreamEvent_new (Wire (JStr ''node_started'')) = Inr (Some NODE_STARTED)
   \<and> StreamEvent_new (Member NODE_STARTED) = StreamEvent_new (Wire (JStr ''node_started''))"
proof -
  have a: "StreamEvent_new (Wire (JStr ''node_started'')) = Inr (Some NODE_STARTED)"
    using StreamEvent_new_value [of NODE_STARTED] by simp
  from StreamEvent_new_idempotent [where e = NODE_STARTED and s = "''node_started''"
      and r = "Some NODE_STARTED"] a
  show ?thesis by simp
qed

section \<open>The classifier\<close>

lemma SPEC_CODE_ERRORS_keys: "distinct (map fst SPEC_CODE_ERRORS)"
  by (simp add: SPEC_CODE_ERRORS_def)

lemma SPEC_CODE_ERRORS_specific:
  "distinct (map snd SPEC_CODE_ERRORS)
   \<and> DifyAPIError \<notin> snd ` set SPEC_CODE_ERRORS
   \<and> DifyResourceNotFound \<notin> snd ` set SPEC_CODE_ERRORS
   \<and> DifyInternalServerError \<notin> snd ` set SPEC_CODE_ERRORS"
  by (simp add: SPEC_CODE_ERRORS_def)

text \<open>
  Claim C2. For every triple of status, code and message that reaches the classifier:
  status 404 gives the not-found kind whatever the code; otherwise status 500 gives the
  internal-server-error kind whatever the code; otherwise a code of the table
  \<^verbatim>\<open>SPEC_CODE_ERRORS\<close> gives the kind the table has for it; otherwise the kind is the
  generic \<^verbatim>\<open>DifyAPIError\<close>. In every case the failure carries the status, the code and
  the message as they came.
\<close>

theorem raise_details_classifies:
  "(st = 404 \<longrightarrow> kind (raise_details st c m) = DifyResourceNotFound)
   \<and> (st \<noteq> 404 \<and> st = 500 \<longrightarrow> kind (raise_details st c m) = DifyInternalServerError)
   \<and> (st \<noteq> 404 \<and> st \<noteq> 500 \<and> (c, k) \<in> set SPEC_CODE_ERRORS \<longrightarrow>
        kind (raise_details st c m) = k)
   \<and> (st \<noteq> 404 \<and> st \<noteq> 500 \<and> c \<notin> fst ` set SPEC_CODE_ERRORS \<longrightarrow>
        kind (raise_details st c m) = DifyAPIError)
   \<and> status (raise_details st c m) = st
   \<and> code (raise_details st c m) = c
   \<and> message (raise_details st c m) = m"
proof -
  have known: "map_of SPEC_CODE_ERRORS c = Some k" if "(c, k) \<in> set SPEC_CODE_ERRORS"
    using that SPEC_CODE_ERRORS_keys by (rule map_of_is_SomeI [rotated])
  have unknown: "map_of SPEC_CODE_ERRORS c = None" if "c \<notin> fst ` set SPEC_CODE_ERRORS"
    using that by (simp add: map_of_eq_None_iff)
  show ?thesis
    by (simp add: raise_details_def new_error_def known unknown)
qed

text \<open>
  The four branches at concrete triples: 404 and 500 with a code of the table, 400 with
  that code, and 400 with a code the table does not have.
\<close>

theorem raise_details_classifies_witness:
  "raise_details 404 ''invalid_param'' ''x''
     = \<lparr>kind = DifyResourceNotFound, status = 404, code = ''invalid_param'', message = ''x''\<rparr>
   \<and> raise_details 500 ''invalid_param'' ''x''
     = \<lparr>kind = DifyInternalServerError, status = 500, code = ''invalid_param'', message = ''x''\<rparr>
   \<and> (''invalid_param'', DifyInvalidParam) \<in> set SPEC_CODE_ERRORS
   \<and> raise_details 400 ''invalid_param'' ''x''
     = \<lparr>kind = DifyInvalidParam, status = 400, code = ''invalid_param'', message = ''x''\<rparr>
   \<and> ''not_found'' \<notin> fst ` set SPEC_CODE_ERRORS
   \<and> raise_details 400 ''not_found'' ''x''
     = \<lparr>kind = DifyAPIError, status = 400, code = ''not_found'', message = ''x''\<rparr>"
proof -
  have a: "(''invalid_param'', DifyInvalidParam) \<in> set SPEC_CODE_ERRORS"
    by (simp add: SPEC_CODE_ERRORS_def)
  have b: "''not_found'' \<notin> fst ` set SPEC_CODE_ERRORS"
    by (simp add: SPEC_CODE_ERRORS_def)
  have eq: "r = \<lparr>kind = kind r, status = status r, code = code r, message = message r\<rparr>"
    for r :: dify_error by simp
  show ?thesis
    using raise_details_classifies [where st = 404 and c = "''invalid_param''" and m = "''x''"]
      raise_details_classifies [where st = 500 and c = "''invalid_param''" and m = "''x''"]
      raise_details_classifies [where st = 400 and c = "''invalid_param''" and m = "''x''"
        and k = DifyInvalidParam]
      raise_details_classifies [where st = 400 and c = "''not_found''" and m = "''x''"]
      a b
      eq [of "raise_details 404 ''invalid_param'' ''x''"]
      eq [of "raise_details 500 ''invalid_param'' ''x''"]
      eq [of "raise_details 400 ''invalid_param'' ''x''"]
      eq [of "raise_details 400 ''not_found'' ''x''"]
    by simp
qed

section \<open>Payloads without a tag\<close>

lemma StreamEvent_new_JNull: "StreamEvent_new (Wire JNull) = Inl (InvalidEnumValue JNull)"
  by (simp add: str_to_enum_def StreamEvent_members_def)

lemma build_stream_response_no_event:
  "d ''event'' = None \<Longrightarrow> build_stream_response mapping V d = Inl (InvalidEnumValue JNull)"
proof -
  assume "d ''event'' = None"
  then have "dict_get d STREAM_EVENT_KEY = JNull"
    by (simp add: dict_get_def STREAM_EVENT_KEY_def)
  then show ?thesis
    unfolding build_stream_response_def by (simp only: StreamEvent_new_JNull sum.case)
qed

text \<open>
  Claim C10. For every payload dict without the key \<^verbatim>\<open>event\<close>, each of the three
  dispatch functions fails with the error of strict resolution (\<^verbatim>\<open>data.get\<close> gives
  \<^verbatim>\<open>None\<close>, which is the value of no tag); none of them returns an event.
\<close>

theorem build_without_event_fails:
  "d ''event'' = None \<Longrightarrow>
     build_completion_stream_response V d = Inl (InvalidEnumValue JNull)
     \<and> build_chat_stream_response V d = Inl (InvalidEnumValue JNull)
     \<and> build_workflows_stream_response V d = Inl (InvalidEnumValue JNull)"
  by (simp add: build_completion_stream_response_def build_chat_stream_response_def
      build_workflows_stream_response_def build_stream_response_no_event)

theorem build_without_event_fails_witness:
  "[''task_id'' \<mapsto> JStr ''t1'', ''answer'' \<mapsto> JStr ''hi''] ''event'' = None
   \<and> build_completion_stream_response validate_plain
        [''task_id'' \<mapsto> JStr ''t1'', ''answer'' \<mapsto> JStr ''hi''] = Inl (InvalidEnumValue JNull)
   \<and> build_chat_stream_response validate_plain
        [''task_id'' \<mapsto> JStr ''t1'', ''answer'' \<mapsto> JStr ''hi''] = Inl (InvalidEnumValue JNull)
   \<and> build_workflows_stream_response validate_plain
        [''task_id'' \<mapsto> JStr ''t1'', ''answer'' \<mapsto> JStr ''hi''] = Inl (InvalidEnumValue JNull)"
proof -
  have h: "[''task_id'' \<mapsto> JStr ''t1'', ''answer'' \<mapsto> JStr ''hi''] ''event'' = None"
    by simp
  from build_without_event_fails
         [where d = "[''task_id'' \<mapsto> JStr ''t1'', ''answer'' \<mapsto> JStr ''hi'']"
            and V = validate_plain] h
  show ?thesis by simp
qed

section \<open>The authorization header\<close>

lemma update_fresh: "k \<notin> fst ` set al \<Longrightarrow> AList.update k v al = al @ [(k, v)]"
  by (induction al) auto

lemma str_lower_Authorization: "str_lower ''Authorization'' = ''authorization''"
  by (simp add: str_lower_def char_lower_def)

lemma no_authorization_key:
  assumes "\<forall>k \<in> set (map fst hs). str_lower k \<noteq> ''authorization''"
  shows "''Authorization'' \<notin> fst ` set hs"
proof
  assume "''Authorization'' \<in> fst ` set hs"
  then have "''Authorization'' \<in> set (map fst hs)" by simp
  with assms have "str_lower ''Authorization'' \<noteq> ''authorization''" by blast
  then show False by (simp add: str_lower_Authorization)
qed

text \<open>
  Claim C7. For every header dict \<open>hs\<close>: when a key of \<open>hs\<close> equals \<^verbatim>\<open>authorization\<close>
  after lower-casing, header preparation returns \<open>hs\<close> as it is; otherwise the result is
  \<open>hs\<close> followed by exactly one new item, the key \<^verbatim>\<open>Authorization\<close> with the value
  \<^verbatim>\<open>Bearer\<close>, a space and the api key. In both cases the items of \<open>hs\<close> are the first
  items of the result, keys and values unchanged.
\<close>

theorem prepare_auth_headers_frame:
  "((\<exists>k \<in> set (map fst hs). str_lower k = ''authorization'') \<longrightarrow>
      prepare_auth_headers api_key hs = hs)
   \<and> ((\<forall>k \<in> set (map fst hs). str_lower k \<noteq> ''authorization'') \<longrightarrow>
      prepare_auth_headers api_key hs = hs @ [(''Authorization'', ''Bearer '' @ api_key)])
   \<and> take (length hs) (prepare_auth_headers api_key hs) = hs"
proof -
  have present: "prepare_auth_headers api_key hs = hs"
    if "\<exists>k \<in> set (map fst hs). str_lower k = ''authorization''"
  proof -
    from that obtain k where "k \<in> set (map fst hs)" and "str_lower k = ''authorization''"
      by blast
    then have "''authorization'' \<in> set (map (\<lambda>key. str_lower key) (map fst hs))"
      by force
    then show ?thesis unfolding prepare_auth_headers_def by (simp del: set_map)
  qed
  have absent: "prepare_auth_headers api_key hs = hs @ [(''Authorization'', ''Bearer '' @ api_key)]"
    if a: "\<forall>k \<in> set (map fst hs). str_lower k \<noteq> ''authorization''"
  proof -
    from a have "''authorization'' \<notin> set (map (\<lambda>key. str_lower key) (map fst hs))"
      by auto
    moreover from no_authorization_key [OF a]
    have "AList.update ''Authorization'' (''Bearer '' @ api_key) hs
            = hs @ [(''Authorization'', ''Bearer '' @ api_key)]"
      by (rule update_fresh)
    ultimately show ?thesis by (simp add: prepare_auth_headers_def)
  qed
  have "take (length hs) (prepare_auth_headers api_key hs) = hs"
  proof (cases "\<exists>k \<in> set (map fst hs). str_lower k = ''authorization''")
    case True
    then show ?thesis by (simp add: present)
  next
    case False
    then have "\<forall>k \<in> set (map fst hs). str_lower k \<noteq> ''authorization''" by blast
    then show ?thesis by (simp add: absent)
  qed
  with present absent show ?thesis by blast
qed

text \<open>
  A caller's \<^verbatim>\<open>AUTHORIZATION\<close> header stays and nothing is added; without one, the
  bearer header is appended after the caller's items.
\<close>

theorem prepare_auth_headers_frame_witness:
  "(\<exists>k \<in> set (map fst [(''Accept'', ''*/*''), (''AUTHORIZATION'', ''Basic abc'')]).
       str_lower k = ''authorization'')
   \<and> prepare_auth_headers ''key'' [(''Accept'', ''*/*''), (''AUTHORIZATION'', ''Basic abc'')]
       = [(''Accept'', ''*/*''), (''AUTHORIZATION'', ''Basic abc'')]
   \<and> ''authorization'' \<notin> str_lower ` set (map fst [(''Accept'', ''*/*'')])
   \<and> prepare_auth_headers ''key'' [(''Accept'', ''*/*'')]
       = [(''Accept'', ''*/*''), (''Authorization'', ''Bearer key'')]"
proof -
  have a: "\<exists>k \<in> set (map fst [(''Accept'', ''*/*''), (''AUTHORIZATION'', ''Basic abc'')]).
       str_lower k = ''authorization''"
    by (simp add: str_lower_def char_lower_def)
  have b: "\<forall>k \<in> set (map fst [(''Accept'', ''*/*'')]). str_lower k \<noteq> ''authorization''"
    by (simp add: str_lower_def char_lower_def)
  from prepare_auth_headers_frame
         [where hs = "[(''Accept'', ''*/*''), (''AUTHORIZATION'', ''Basic abc'')]"
            and api_key = "''key''"]
       prepare_auth_headers_frame [where hs = "[(''Accept'', ''*/*'')]" and api_key = "''key''"]
       a b
  show ?thesis by (simp add: str_lower_def char_lower_def)
qed

text \<open>
  So every request carries an authorization header: the caller's own, or the bearer
  header of the client.
\<close>

lemma merged_headers_authorized:
  "\<exists>k \<in> set (map fst (merged_headers api_key hs)). str_lower k = ''authorization''"
proof -
  define h where "h = (case hs of None \<Rightarrow> [] | Some h \<Rightarrow> h)"
  show ?thesis
  proof (cases "''authorization'' \<in> set (map (\<lambda>key. str_lower key) (map fst h))")
    case True
    then have "prepare_auth_headers api_key h = h"
      by (simp add: prepare_auth_headers_def del: set_map)
    with True show ?thesis
      unfolding merged_headers_def h_def [symmetric] by force
  next
    case False
    then have "''Authorization'' \<notin> fst ` set h"
      using str_lower_Authorization by force
    with False have "prepare_auth_headers api_key h
                       = h @ [(''Authorization'', ''Bearer '' @ api_key)]"
      by (simp add: prepare_auth_headers_def update_fresh del: set_map)
    then show ?thesis
      unfolding merged_headers_def h_def [symmetric]
      by (simp add: str_lower_Authorization)
  qed
qed

section \<open>Dispatch\<close>

lemma mapping_get_completion:
  "mapping_get COMPLETION_EVENT_TO_STREAM_RESP_MAPPING (Some e) StreamResponse
     = spec_completion_shape e"
  by (cases e) (simp_all add: mapping_get_def COMPLETION_EVENT_TO_STREAM_RESP_MAPPING_def)

lemma mapping_get_chat:
  "mapping_get CHAT_EVENT_TO_STREAM_RESP_MAPPING (Some e) StreamResponse = spec_chat_shape e"
  by (cases e) (simp_all add: mapping_get_def CHAT_EVENT_TO_STREAM_RESP_MAPPING_def)

lemma mapping_get_workflows:
  "mapping_get WORKFLOW_EVENT_TO_STREAM_RESP_MAPPING (Some e) StreamResponse
     = spec_workflows_shape e"
  by (cases e) (simp_all add: mapping_get_def WORKFLOW_EVENT_TO_STREAM_RESP_MAPPING_def)

lemma build_stream_response_tagged:
  assumes "d ''event'' = Some (JStr (StreamEvent_value e))"
  shows "build_stream_response mapping V d
           = model_init V (mapping_get mapping (Some e) StreamResponse) d"
proof -
  from assms have "dict_get d STREAM_EVENT_KEY = JStr (StreamEvent_value e)"
    by (simp add: dict_get_def STREAM_EVENT_KEY_def)
  then show ?thesis
    unfolding build_stream_response_def
    by (simp only: StreamEvent_new_value sum.case)
qed

lemma model_init_tagged:
  assumes "d ''event'' = Some (JStr (StreamEvent_value e))"
  shows "model_init V c d =
           (case validate_fields V (model_fields c) d of
              None \<Rightarrow> Inl ValidationError
            | Some fs \<Rightarrow>
                Inr \<lparr>cls = c, event = e, field_values = fs,
                     model_extra = d |` (- declared c)\<rparr>)"
proof -
  from assms have "d STREAM_EVENT_KEY = Some (JStr (StreamEvent_value e))"
    by (simp add: STREAM_EVENT_KEY_def)
  then show ?thesis
    unfolding model_init_def
    by (simp only: StreamEvent_new_value sum.case option.case)
qed

lemma validate_StreamResponse_fields:
  "validate_fields V StreamResponse_fields d =
     (case d ''task_id'' of
        None \<Rightarrow> Some [''task_id'' \<mapsto> JStr []]
      | Some v \<Rightarrow>
          (case V (TOptional TStr) v of None \<Rightarrow> None | Some v' \<Rightarrow> Some [''task_id'' \<mapsto> v']))"
  by (simp add: StreamResponse_fields_def split: option.splits)

lemma declared_StreamResponse: "declared StreamResponse = {''event'', ''task_id''}"
  by (simp add: declared_def STREAM_EVENT_KEY_def StreamResponse_fields_def)

lemma validate_fields_append:
  "validate_fields V (fs1 @ fs2) d = Some m \<Longrightarrow>
     (\<exists>m1. validate_fields V fs1 d = Some m1) \<and> (\<exists>m2. validate_fields V fs2 d = Some m2)"
proof (induction fs1 arbitrary: m)
  case Nil
  then show ?case by simp
next
  case (Cons f fs1)
  obtain name ann dflt where f: "f = (name, ann, dflt)" by (cases f)
  from Cons.prems obtain m' where "validate_fields V (fs1 @ fs2) d = Some m'"
    by (auto simp: f split: option.splits)
  from Cons.IH [OF this] Cons.prems show ?case
    by (auto simp: f split: option.splits)
qed

text \<open>
  Every shape declares \<^verbatim>\<open>task_id\<close> as the generic shape does, so whatever validates
  against some shape validates against the generic one.
\<close>

lemma generic_fields_validate:
  "validate_fields V (model_fields c) d = Some fs \<Longrightarrow>
     \<exists>g. validate_fields V StreamResponse_fields d = Some g"
  by (cases c)
     (auto simp: MessageStreamResponse_fields_def WorkflowsStreamResponse_fields_def
        dest!: validate_fields_append)

lemma model_init_Inr_fields:
  assumes tag: "d ''event'' = Some (JStr (StreamEvent_value e))"
    and ok: "model_init V c d = Inr r"
  shows "\<exists>fs. validate_fields V (model_fields c) d = Some fs"
proof -
  note init = model_init_tagged [where d = d and e = e, OF tag]
  from ok show ?thesis
    by (cases "validate_fields V (model_fields c) d") (simp_all add: init)
qed

lemma model_init_generic:
  assumes tag: "d ''event'' = Some (JStr (StreamEvent_value e))"
    and g: "validate_fields V StreamResponse_fields d = Some g"
  shows "model_init V StreamResponse d =
                 Inr \<lparr>cls = StreamResponse, event = e, field_values = g,
                      model_extra = d |` (- {''event'', ''task_id''})\<rparr>"
proof -
  note init = model_init_tagged [where d = d and e = e, OF tag]
  show ?thesis
    by (simp add: init g declared_StreamResponse)
qed

lemma generic_accepts:
  assumes tag: "d ''event'' = Some (JStr (StreamEvent_value e))"
    and ok: "model_init V c d = Inr r"
  shows "\<exists>g. model_init V StreamResponse d =
                 Inr \<lparr>cls = StreamResponse, event = e, field_values = g,
                      model_extra = d |` (- {''event'', ''task_id''})\<rparr>"
proof -
  from model_init_Inr_fields [where d = d and e = e, OF tag ok]
  obtain fs where "validate_fields V (model_fields c) d = Some fs" ..
  from generic_fields_validate [OF this]
  obtain g where "validate_fields V StreamResponse_fields d = Some g" ..
  from model_init_generic [where d = d and e = e, OF tag this]
  show ?thesis by - (rule exI)
qed

text \<open>
  Claim C1. For a payload whose tag is the value of the tag \<open>e\<close>, each of the three
  dispatch functions decodes it into the shape that the family's table declares for \<open>e\<close>:
  the tables are those of the specification, and a known tag absent from a family's table
  gets the generic passthrough shape. Decoding into a shape gives an event of that shape
  with the tag \<open>e\<close>, the validated fields and the undeclared keys as they came. The generic
  shape asks nothing of the payload but the envelope every shape asks for (the optional
  \<^verbatim>\<open>task_id\<close>): with \<^verbatim>\<open>task_id\<close> absent or an optional string it yields the event
  made of the tag, the task id and the raw other keys, and it accepts every payload that
  any shape accepts, so it never fails because the tag is not in the table.
\<close>

theorem build_stream_response_dispatch:
  "d ''event'' = Some (JStr (StreamEvent_value e)) \<longrightarrow>
     build_completion_stream_response V d = model_init V (spec_completion_shape e) d
     \<and> build_chat_stream_response V d = model_init V (spec_chat_shape e) d
     \<and> build_workflows_stream_response V d = model_init V (spec_workflows_shape e) d
     \<and> (\<forall>c. model_init V c d =
          (case validate_fields V (model_fields c) d of
             None \<Rightarrow> Inl ValidationError
           | Some fs \<Rightarrow>
               Inr \<lparr>cls = c, event = e, field_values = fs,
                    model_extra = d |` (- declared c)\<rparr>))
     \<and> (d ''task_id'' = None \<longrightarrow>
          model_init V StreamResponse d =
            Inr \<lparr>cls = StreamResponse, event = e, field_values = [''task_id'' \<mapsto> JStr []],
                 model_extra = d |` (- {''event'', ''task_id''})\<rparr>)
     \<and> (\<forall>v v'. d ''task_id'' = Some v \<and> V (TOptional TStr) v = Some v' \<longrightarrow>
          model_init V StreamResponse d =
            Inr \<lparr>cls = StreamResponse, event = e, field_values = [''task_id'' \<mapsto> v'],
                 model_extra = d |` (- {''event'', ''task_id''})\<rparr>)
     \<and> (\<forall>c r. model_init V c d = Inr r \<longrightarrow>
          (\<exists>g. model_init V StreamResponse d =
                 Inr \<lparr>cls = StreamResponse, event = e, field_values = g,
                      model_extra = d |` (- {''event'', ''task_id''})\<rparr>))"
proof (intro impI conjI allI)
  assume tag: "d ''event'' = Some (JStr (StreamEvent_value e))"
  note build = build_stream_response_tagged [where d = d and e = e, OF tag]
  note init = model_init_tagged [where d = d and e = e, OF tag]
  show "build_completion_stream_response V d = model_init V (spec_completion_shape e) d"
    unfolding build_completion_stream_response_def
    by (simp only: build mapping_get_completion)
  show "build_chat_stream_response V d = model_init V (spec_chat_shape e) d"
    unfolding build_chat_stream_response_def
    by (simp only: build mapping_get_chat)
  show "build_workflows_stream_response V d = model_init V (spec_workflows_shape e) d"
    unfolding build_workflows_stream_response_def
    by (simp only: build mapping_get_workflows)
  show "model_init V c d =
          (case validate_fields V (model_fields c) d of
             None \<Rightarrow> Inl ValidationError
           | Some fs \<Rightarrow>
               Inr \<lparr>cls = c, event = e, field_values = fs,
                    model_extra = d |` (- declared c)\<rparr>)" for c
    by (rule init)
  show "model_init V StreamResponse d =
            Inr \<lparr>cls = StreamResponse, event = e, field_values = [''task_id'' \<mapsto> JStr []],
                 model_extra = d |` (- {''event'', ''task_id''})\<rparr>"
    if "d ''task_id'' = None"
    using that
    by (simp add: init validate_StreamResponse_fields
        declared_StreamResponse)
  show "model_init V StreamResponse d =
            Inr \<lparr>cls = StreamResponse, event = e, field_values = [''task_id'' \<mapsto> v'],
                 model_extra = d |` (- {''event'', ''task_id''})\<rparr>"
    if "d ''task_id'' = Some v \<and> V (TOptional TStr) v = Some v'" for v v'
    using that
    by (simp add: init validate_StreamResponse_fields
        declared_StreamResponse)
  show "\<exists>g. model_init V StreamResponse d =
                 Inr \<lparr>cls = StreamResponse, event = e, field_values = g,
                      model_extra = d |` (- {''event'', ''task_id''})\<rparr>"
    if ok: "model_init V c d = Inr r" for c r
    by (rule generic_accepts [where d = d and e = e, OF tag that])
qed

text \<open>
  On the completion family, a payload tagged \<^verbatim>\<open>agent_thought\<close>, which the completion
  table does not have, decodes into the generic shape and keeps its other keys; on the
  workflow family, a payload tagged \<^verbatim>\<open>ping\<close> decodes into the ping shape, and the
  generic shape accepts it as well.
\<close>

theorem build_stream_response_dispatch_witness:
  "[''event'' \<mapsto> JStr ''agent_thought'', ''task_id'' \<mapsto> JStr ''t1'', ''position'' \<mapsto> JInt 1]
       ''event'' = Some (JStr (StreamEvent_value AGENT_THOUGHT))
   \<and> validate_plain (TOptional TStr) (JStr ''t1'') = Some (JStr ''t1'')
   \<and> build_completion_stream_response validate_plain
        [''event'' \<mapsto> JStr ''agent_thought'', ''task_id'' \<mapsto> JStr ''t1'', ''position'' \<mapsto> JInt 1]
       = Inr \<lparr>cls = StreamResponse, event = AGENT_THOUGHT,
              field_values = [''task_id'' \<mapsto> JStr ''t1''],
              model_extra =
                [''event'' \<mapsto> JStr ''agent_thought'', ''task_id'' \<mapsto> JStr ''t1'',
                 ''position'' \<mapsto> JInt 1] |` (- {''event'', ''task_id''})\<rparr>
   \<and> [''event'' \<mapsto> JStr ''ping''] ''event'' = Some (JStr (StreamEvent_value PING))
   \<and> [''event'' \<mapsto> JStr ''ping''] ''task_id'' = None
   \<and> build_workflows_stream_response validate_plain [''event'' \<mapsto> JStr ''ping'']
       = Inr \<lparr>cls = PingResponse, event = PING, field_values = [''task_id'' \<mapsto> JStr []],
              model_extra = [''event'' \<mapsto> JStr ''ping''] |` (- declared PingResponse)\<rparr>
   \<and> (\<exists>g. model_init validate_plain StreamResponse [''event'' \<mapsto> JStr ''ping'']
            = Inr \<lparr>cls = StreamResponse, event = PING, field_values = g,
                   model_extra = [''event'' \<mapsto> JStr ''ping''] |` (- {''event'', ''task_id''})\<rparr>)"
proof -
  define d1 :: dict where
    "d1 = [''event'' \<mapsto> JStr ''agent_thought'', ''task_id'' \<mapsto> JStr ''t1'',
           ''position'' \<mapsto> JInt 1]"
  define d2 :: dict where "d2 = [''event'' \<mapsto> JStr ''ping'']"
  have a: "d1 ''event'' = Some (JStr (StreamEvent_value AGENT_THOUGHT))"
    by (simp add: d1_def)
  have b: "d1 ''task_id'' = Some (JStr ''t1'')"
    by (simp add: d1_def)
  have c: "validate_plain (TOptional TStr) (JStr ''t1'') = Some (JStr ''t1'')"
    by simp
  have p: "d2 ''event'' = Some (JStr (StreamEvent_value PING))"
    by (simp add: d2_def)
  have q: "d2 ''task_id'' = None"
    by (simp add: d2_def)
  note t1 = build_stream_response_dispatch
              [where d = d1 and e = AGENT_THOUGHT and V = validate_plain, THEN mp, OF a]
  note t2 = build_stream_response_dispatch
              [where d = d2 and e = PING and V = validate_plain, THEN mp, OF p]
  from t1 have "build_completion_stream_response validate_plain d1
                  = model_init validate_plain StreamResponse d1"
    by simp
  moreover from t1 b c have "model_init validate_plain StreamResponse d1
       = Inr \<lparr>cls = StreamResponse, event = AGENT_THOUGHT,
              field_values = [''task_id'' \<mapsto> JStr ''t1''],
              model_extra = d1 |` (- {''event'', ''task_id''})\<rparr>"
    by blast
  ultimately have first: "build_completion_stream_response validate_plain d1
       = Inr \<lparr>cls = StreamResponse, event = AGENT_THOUGHT,
              field_values = [''task_id'' \<mapsto> JStr ''t1''],
              model_extra = d1 |` (- {''event'', ''task_id''})\<rparr>"
    by (rule trans)
  have f: "validate_fields validate_plain (model_fields PingResponse) d2
             = Some [''task_id'' \<mapsto> JStr []]"
    by (simp add: StreamResponse_fields_def d2_def)
  from t2 have w: "build_workflows_stream_response validate_plain d2
                  = model_init validate_plain PingResponse d2"
    by simp
  from t2 have "model_init validate_plain PingResponse d2
       = (case validate_fields validate_plain (model_fields PingResponse) d2 of
            None \<Rightarrow> Inl ValidationError
          | Some fs \<Rightarrow>
              Inr \<lparr>cls = PingResponse, event = PING, field_values = fs,
                   model_extra = d2 |` (- declared PingResponse)\<rparr>)"
    by blast
  then have ping: "model_init validate_plain PingResponse d2
       = Inr \<lparr>cls = PingResponse, event = PING, field_values = [''task_id'' \<mapsto> JStr []],
              model_extra = d2 |` (- declared PingResponse)\<rparr>"
    by (simp only: f option.case)
  with w have second: "build_workflows_stream_response validate_plain d2
       = Inr \<lparr>cls = PingResponse, event = PING, field_values = [''task_id'' \<mapsto> JStr []],
              model_extra = d2 |` (- declared PingResponse)\<rparr>"
    by (rule trans)
  from t2 ping have third: "\<exists>g. model_init validate_plain StreamResponse d2
            = Inr \<lparr>cls = StreamResponse, event = PING, field_values = g,
                   model_extra = d2 |` (- {''event'', ''task_id''})\<rparr>"
    by blast
  from a c p q first second third show ?thesis
    unfolding d1_def d2_def by blast
qed

text \<open>
  What the generic shape does validate is the envelope, and so does every shape of the
  tables: a \<^verbatim>\<open>task_id\<close> that is a number is rejected under \<^verbatim>\<open>agent_message\<close>, which
  the completion table does not have, exactly as it is under \<^verbatim>\<open>ping\<close>, which it has.
  Such a failure is the payload's, not the tag's.
\<close>

lemma ill_typed_task_id_rejected:
  "build_completion_stream_response validate_plain
     [''event'' \<mapsto> JStr ''agent_message'', ''task_id'' \<mapsto> JInt 5] = Inl ValidationError
   \<and> build_completion_stream_response validate_plain
     [''event'' \<mapsto> JStr ''ping'', ''task_id'' \<mapsto> JInt 5] = Inl ValidationError"
  by (simp add: build_completion_stream_response_def build_stream_response_def dict_get_def
      STREAM_EVENT_KEY_def str_to_enum_def StreamEvent_members_def mapping_get_def
      COMPLETION_EVENT_TO_STREAM_RESP_MAPPING_def model_init_def StreamResponse_fields_def)

section \<open>Undeclared keys\<close>

lemma validate_fields_cong:
  "(\<forall>n \<in> fst ` set fs. d n = d' n) \<Longrightarrow> validate_fields V fs d = validate_fields V fs d'"
  by (induction V fs d rule: validate_fields.induct) (auto split: option.splits)

lemma restrict_add_outside:
  "dom xs \<inter> N = {} \<Longrightarrow> (d ++ xs) |` (- N) = (d |` (- N)) ++ xs"
  by (rule ext) (auto simp: restrict_map_def map_add_def split: option.splits)

lemma build_stream_response_Inr:
  assumes "build_stream_response mapping V d = Inr r"
  shows "\<exists>e. d ''event'' = Some (JStr (StreamEvent_value e))"
proof -
  from assms obtain ev where n: "StreamEvent_new (Wire (dict_get d STREAM_EVENT_KEY)) = Inr ev"
    by (cases "StreamEvent_new (Wire (dict_get d STREAM_EVENT_KEY))")
       (simp_all add: build_stream_response_def)
  from StreamEvent_new_Wire_Some [OF n]
  obtain e where "dict_get d STREAM_EVENT_KEY = JStr (StreamEvent_value e)" by blast
  then have "d ''event'' = Some (JStr (StreamEvent_value e))"
    by (cases "d ''event''") (simp_all add: dict_get_def STREAM_EVENT_KEY_def)
  then show ?thesis ..
qed

lemma build_stream_response_extra:
  assumes ok: "build_stream_response mapping V d = Inr r"
    and new: "dom xs \<inter> declared (cls r) = {}"
  shows "build_stream_response mapping V (d ++ xs)
           = Inr (r\<lparr>model_extra := model_extra r ++ xs\<rparr>)"
proof -
  from build_stream_response_Inr [OF ok]
  obtain e where tag: "d ''event'' = Some (JStr (StreamEvent_value e))" ..
  define c where "c = mapping_get mapping (Some e) StreamResponse"
  note build = build_stream_response_tagged [where d = d and e = e, OF tag]
  note init = model_init_tagged [where d = d and e = e, OF tag]
  from ok have mi: "model_init V c d = Inr r" by (simp add: build c_def)
  then obtain fs where fs: "validate_fields V (model_fields c) d = Some fs"
    and r: "r = \<lparr>cls = c, event = e, field_values = fs, model_extra = d |` (- declared c)\<rparr>"
    by (cases "validate_fields V (model_fields c) d") (simp_all add: init)
  from r have cr: "cls r = c" by simp
  with new have out: "dom xs \<inter> declared c = {}" by simp
  then have same: "\<forall>n \<in> declared c. (d ++ xs) n = d n"
    by (auto simp: map_add_def split: option.splits)
  then have tag': "(d ++ xs) ''event'' = Some (JStr (StreamEvent_value e))"
    using tag by (simp add: declared_def STREAM_EVENT_KEY_def)
  from same have "\<forall>n \<in> fst ` set (model_fields c). (d ++ xs) n = d n"
    by (simp add: declared_def)
  then have fs': "validate_fields V (model_fields c) (d ++ xs) = Some fs"
    using validate_fields_cong [of "model_fields c" "d ++ xs" d V] fs by simp
  have "build_stream_response mapping V (d ++ xs) = model_init V c (d ++ xs)"
    by (simp only: build_stream_response_tagged [where d = "d ++ xs" and e = e, OF tag'] c_def)
  also have "\<dots> = Inr \<lparr>cls = c, event = e, field_values = fs,
                        model_extra = (d ++ xs) |` (- declared c)\<rparr>"
    by (simp add: model_init_tagged [where d = "d ++ xs" and e = e, OF tag'] fs')
  also have "\<dots> = Inr (r\<lparr>model_extra := model_extra r ++ xs\<rparr>)"
    by (simp add: r restrict_add_outside [OF out])
  finally show ?thesis .
qed

text \<open>
  Claim C6. For every payload that decodes, in any of the three families, adding keys that
  the shape of its tag does not declare never makes the decode fail: the payload with
  the added keys decodes to the same event, of the same shape, with the same tag and the
  same validated fields, and the added keys are carried among its extra fields with the
  values they came with.
\<close>

theorem extra_fields_preserved:
  "(build_completion_stream_response V d = Inr r \<and> dom xs \<inter> declared (cls r) = {} \<longrightarrow>
      build_completion_stream_response V (d ++ xs) = Inr (r\<lparr>model_extra := model_extra r ++ xs\<rparr>))
   \<and> (build_chat_stream_response V d = Inr r \<and> dom xs \<inter> declared (cls r) = {} \<longrightarrow>
      build_chat_stream_response V (d ++ xs) = Inr (r\<lparr>model_extra := model_extra r ++ xs\<rparr>))
   \<and> (build_workflows_stream_response V d = Inr r \<and> dom xs \<inter> declared (cls r) = {} \<longrightarrow>
      build_workflows_stream_response V (d ++ xs) = Inr (r\<lparr>model_extra := model_extra r ++ xs\<rparr>))"
  unfolding build_completion_stream_response_def build_chat_stream_response_def
    build_workflows_stream_response_def
  by (blast intro: build_stream_response_extra)

text \<open>
  A \<^verbatim>\<open>message\<close> payload of the chat family with its required fields decodes; with the
  undeclared key \<^verbatim>\<open>trace\<close> added it decodes to the same event, which carries
  \<^verbatim>\<open>trace\<close> among its extra fields.
\<close>

theorem extra_fields_preserved_witness:
  "build_chat_stream_response validate_plain
       [''event'' \<mapsto> JStr ''message'', ''message_id'' \<mapsto> JStr ''m1'',
        ''answer'' \<mapsto> JStr ''hi'', ''created_at'' \<mapsto> JInt 1]
     = Inr \<lparr>cls = MessageStreamResponse, event = MESSAGE,
            field_values = [''created_at'' \<mapsto> JInt 1, ''answer'' \<mapsto> JStr ''hi'',
                            ''conversation_id'' \<mapsto> JStr [], ''message_id'' \<mapsto> JStr ''m1'',
                            ''task_id'' \<mapsto> JStr []],
            model_extra = Map.empty\<rparr>
   \<and> dom [''trace'' \<mapsto> JInt 7] \<inter> declared MessageStreamResponse = {}
   \<and> build_chat_stream_response validate_plain
       ([''event'' \<mapsto> JStr ''message'', ''message_id'' \<mapsto> JStr ''m1'',
         ''answer'' \<mapsto> JStr ''hi'', ''created_at'' \<mapsto> JInt 1] ++ [''trace'' \<mapsto> JInt 7])
     = Inr \<lparr>cls = MessageStreamResponse, event = MESSAGE,
            field_values = [''created_at'' \<mapsto> JInt 1, ''answer'' \<mapsto> JStr ''hi'',
                            ''conversation_id'' \<mapsto> JStr [], ''message_id'' \<mapsto> JStr ''m1'',
                            ''task_id'' \<mapsto> JStr []],
            model_extra = [''trace'' \<mapsto> JInt 7]\<rparr>"
proof -
  define d :: dict where
    "d = [''event'' \<mapsto> JStr ''message'', ''message_id'' \<mapsto> JStr ''m1'',
          ''answer'' \<mapsto> JStr ''hi'', ''created_at'' \<mapsto> JInt 1]"
  define r where
    "r = \<lparr>cls = MessageStreamResponse, event = MESSAGE,
            field_values = [''created_at'' \<mapsto> JInt 1, ''answer'' \<mapsto> JStr ''hi'',
                            ''conversation_id'' \<mapsto> JStr [], ''message_id'' \<mapsto> JStr ''m1'',
                            ''task_id'' \<mapsto> JStr []],
            model_extra = Map.empty\<rparr>"
  have decl: "declared MessageStreamResponse
                = {''event'', ''task_id'', ''message_id'', ''conversation_id'', ''answer'',
                   ''created_at''}"
    by (simp add: declared_def STREAM_EVENT_KEY_def MessageStreamResponse_fields_def
        StreamResponse_fields_def)
  have extra: "d |` (- declared MessageStreamResponse) = Map.empty"
    by (rule ext) (simp add: decl d_def restrict_map_def)
  have tag: "d ''event'' = Some (JStr (StreamEvent_value MESSAGE))"
    by (simp add: d_def)
  have vf: "validate_fields validate_plain MessageStreamResponse_fields d
              = Some [''created_at'' \<mapsto> JInt 1, ''answer'' \<mapsto> JStr ''hi'',
                      ''conversation_id'' \<mapsto> JStr [], ''message_id'' \<mapsto> JStr ''m1'',
                      ''task_id'' \<mapsto> JStr []]"
    by (simp add: d_def MessageStreamResponse_fields_def StreamResponse_fields_def)
  have ok: "build_chat_stream_response validate_plain d = Inr r"
    unfolding build_chat_stream_response_def
    by (simp add: build_stream_response_tagged [where d = d and e = MESSAGE, OF tag]
        mapping_get_chat model_init_tagged [where d = d and e = MESSAGE, OF tag]
        vf extra r_def)
  have new: "dom [''trace'' \<mapsto> JInt 7] \<inter> declared (cls r) = {}"
    by (simp add: r_def decl)
  from extra_fields_preserved
         [where V = validate_plain and d = d and r = r and xs = "[''trace'' \<mapsto> JInt 7]"]
       ok new
  have "build_chat_stream_response validate_plain (d ++ [''trace'' \<mapsto> JInt 7])
          = Inr (r\<lparr>model_extra := model_extra r ++ [''trace'' \<mapsto> JInt 7]\<rparr>)"
    by blast
  with ok new show ?thesis
    by (simp add: r_def d_def)
qed

section \<open>In-band errors\<close>

lemma dict_of_None: "k \<notin> fst ` set kvs \<Longrightarrow> dict_of kvs k = None"
  by (simp add: dict_of_def map_of_eq_None_iff)

lemma validate_fields_default_first:
  assumes "d name = None"
    and "validate_fields V ((name, ann, Some v) # fs) d = Some m"
  shows "m name = Some v"
  using assms by (auto split: option.splits)

lemma ErrorStreamResponse_status_default:
  assumes absent: "d ''status'' = None"
    and ok: "ErrorStreamResponse_init V d = Inr (r, st, c, m)"
  shows "st = 500"
proof -
  from ok obtain r' where mi: "model_init V ErrorStreamResponse d = Inr r'"
    by (cases "model_init V ErrorStreamResponse d") (simp_all add: ErrorStreamResponse_init_def)
  with ok have det: "details_of (field_values r') = Some (st, c, m)"
    by (cases "details_of (field_values r')") (simp_all add: ErrorStreamResponse_init_def)
  from mi have "validate_fields V (model_fields ErrorStreamResponse) d = Some (field_values r')"
    by (auto simp: model_init_def split: option.splits sum.splits)
  then have "validate_fields V
               ((''status'', TInt, Some (JInt 500)) #
                (tl ErrorResponse_fields @ StreamResponse_fields @
                 [(''message_id'', TOptional TStr, Some (JStr []))])) d
             = Some (field_values r')"
    by (simp add: ErrorResponse_fields_def)
  from validate_fields_default_first [OF absent this]
  have "field_values r' ''status'' = Some (JInt 500)" .
  with det show ?thesis
    by (auto simp: details_of_def split: option.splits json.splits)
qed

text \<open>
  Claim C9. For every stream event tagged \<^verbatim>\<open>error\<close> whose payload is a JSON object
  without the key \<^verbatim>\<open>status\<close>: the decoded error has the status 500, the default of the
  field, so the classifier raises the internal-server-error kind with status 500, whatever
  the code of the payload is; the table of known codes is not looked at. (Nothing takes
  the place of the HTTP status line here.)
\<close>

theorem error_event_without_status:
  "sse_event sse = ''error''
   \<and> json_loads L (sse_data sse) = Some (JObj kvs)
   \<and> ''status'' \<notin> fst ` set kvs
   \<and> ErrorStreamResponse_init (validate L) (dict_of kvs) = Inr (r, st, c, m)
   \<longrightarrow> st = 500
       \<and> raise_for_status_sse L sse =
           Inl (Dify \<lparr>kind = DifyInternalServerError, status = 500, code = c, message = m\<rparr>)"
proof (intro impI, elim conjE)
  assume tag: "sse_event sse = ''error''"
    and js: "json_loads L (sse_data sse) = Some (JObj kvs)"
    and absent: "''status'' \<notin> fst ` set kvs"
    and ok: "ErrorStreamResponse_init (validate L) (dict_of kvs) = Inr (r, st, c, m)"
  from ErrorStreamResponse_status_default [OF dict_of_None [OF absent] ok]
  have st: "st = 500" .
  have "raise_for_status_sse L sse = Inl (Dify (raise_details st c m))"
    by (simp add: raise_for_status_sse_def tag js ok)
  with st show "st = 500
       \<and> raise_for_status_sse L sse =
           Inl (Dify \<lparr>kind = DifyInternalServerError, status = 500, code = c, message = m\<rparr>)"
    by (simp add: raise_details_def new_error_def)
qed

text \<open>
  An error event whose payload has the known code \<^verbatim>\<open>invalid_param\<close> and no status is
  raised as an internal server error, not as an invalid parameter.
\<close>

theorem error_event_without_status_witness:
  "sse_event \<lparr>sse_event = ''error'', sse_data = error_event_text\<rparr> = ''error''
   \<and> json_loads sample_library (sse_data \<lparr>sse_event = ''error'', sse_data = error_event_text\<rparr>)
       = Some (JObj [(''event'', JStr ''error''), (''code'', JStr ''invalid_param''),
                     (''message'', JStr ''bad'')])
   \<and> ''status'' \<notin> fst ` set [(''event'', JStr ''error''), (''code'', JStr ''invalid_param''),
                                (''message'', JStr ''bad'')]
   \<and> (\<exists>r. ErrorStreamResponse_init (validate sample_library)
              (dict_of [(''event'', JStr ''error''), (''code'', JStr ''invalid_param''),
                        (''message'', JStr ''bad'')])
            = Inr (r, 500, ''invalid_param'', ''bad''))
   \<and> raise_for_status_sse sample_library \<lparr>sse_event = ''error'', sse_data = error_event_text\<rparr>
       = Inl (Dify \<lparr>kind = DifyInternalServerError, status = 500, code = ''invalid_param'',
                    message = ''bad''\<rparr>)"
proof -
  define kvs where
    "kvs = [(''event'', JStr ''error''), (''code'', JStr ''invalid_param''),
            (''message'', JStr ''bad'')]"
  define sse where "sse = \<lparr>sse_event = ''error'', sse_data = error_event_text\<rparr>"
  have tag: "sse_event sse = ''error''"
    by (simp add: sse_def)
  have js: "json_loads sample_library (sse_data sse) = Some (JObj kvs)"
    by (simp add: sse_def sample_library_def loads_sample_def kvs_def)
  have absent: "''status'' \<notin> fst ` set kvs"
    by (simp add: kvs_def)
  have ev: "dict_of kvs ''event'' = Some (JStr (StreamEvent_value ERROR))"
    by (simp add: dict_of_def kvs_def)
  have vf: "validate_fields validate_plain (model_fields ErrorStreamResponse) (dict_of kvs)
              = Some [''message_id'' \<mapsto> JStr [], ''task_id'' \<mapsto> JStr [],
                      ''message'' \<mapsto> JStr ''bad'', ''code'' \<mapsto> JStr ''invalid_param'',
                      ''status'' \<mapsto> JInt 500]"
    by (simp add: ErrorResponse_fields_def StreamResponse_fields_def dict_of_def kvs_def)
  have mi: "model_init validate_plain ErrorStreamResponse (dict_of kvs)
              = Inr \<lparr>cls = ErrorStreamResponse, event = ERROR,
                     field_values = [''message_id'' \<mapsto> JStr [], ''task_id'' \<mapsto> JStr [],
                        ''message'' \<mapsto> JStr ''bad'', ''code'' \<mapsto> JStr ''invalid_param'',
                        ''status'' \<mapsto> JInt 500],
                     model_extra = dict_of kvs |` (- declared ErrorStreamResponse)\<rparr>"
    by (simp only: model_init_tagged [where d = "dict_of kvs" and e = ERROR, OF ev] vf
        option.case)
  have ok: "ErrorStreamResponse_init (validate sample_library) (dict_of kvs)
              = Inr (\<lparr>cls = ErrorStreamResponse, event = ERROR,
                      field_values = [''message_id'' \<mapsto> JStr [], ''task_id'' \<mapsto> JStr [],
                        ''message'' \<mapsto> JStr ''bad'', ''code'' \<mapsto> JStr ''invalid_param'',
                        ''status'' \<mapsto> JInt 500],
                      model_extra = dict_of kvs |` (- declared ErrorStreamResponse)\<rparr>,
                     500, ''invalid_param'', ''bad'')"
    by (simp add: ErrorStreamResponse_init_def sample_library_def mi details_of_def)
  from error_event_without_status
         [where sse = sse and L = sample_library and kvs = kvs and st = 500
            and c = "''invalid_param''" and m = "''bad''"] tag js absent ok
  have "raise_for_status_sse sample_library sse
       = Inl (Dify \<lparr>kind = DifyInternalServerError, status = 500, code = ''invalid_param'',
                    message = ''bad''\<rparr>)"
    by blast
  with tag js absent ok show ?thesis
    unfolding sse_def kvs_def by blast
qed

section \<open>The event loop\<close>

lemma raise_for_status_sse_other:
  "sse_event s \<noteq> ''error'' \<Longrightarrow> raise_for_status_sse L s = Inr ()"
  by (simp add: raise_for_status_sse_def)

lemma raise_for_status_sse_error:
  "sse_event s = ''error'' \<Longrightarrow> \<exists>e. raise_for_status_sse L s = Inl e"
  by (auto simp: raise_for_status_sse_def split: option.splits json.splits sum.splits)

lemma ignored_iff:
  "(sse_event s \<in> set IGNORED_STREAM_EVENTS \<or> sse_data s \<in> set IGNORED_STREAM_EVENTS)
     \<longleftrightarrow> \<not> (sse_event s \<noteq> ''ping'' \<and> sse_data s \<noteq> ''ping'')"
  by (auto simp: IGNORED_STREAM_EVENTS_def)

lemma iter_events_yielded:
  "fst (iter_events L (evs, ended))
     = filter (\<lambda>s. sse_event s \<noteq> ''ping'' \<and> sse_data s \<noteq> ''ping'')
         (takeWhile (\<lambda>s. sse_event s \<noteq> ''error'') evs)"
proof (induction evs)
  case Nil
  show ?case by simp
next
  case (Cons s evs)
  show ?case
  proof (cases "sse_event s = ''error''")
    case True
    from raise_for_status_sse_error [OF True, of L]
    obtain e where "raise_for_status_sse L s = Inl e" ..
    with True show ?thesis by simp
  next
    case False
    with Cons show ?thesis
      by (simp add: raise_for_status_sse_other ignored_iff del: set_simps)
  qed
qed

lemma iter_events_no_error:
  "\<forall>s \<in> set evs. sse_event s \<noteq> ''error'' \<Longrightarrow> snd (iter_events L (evs, ended)) = ended"
  by (induction evs) (simp_all add: raise_for_status_sse_other)

lemma iter_events_first_error:
  assumes "\<forall>p \<in> set pre. sse_event p \<noteq> ''error''"
    and "raise_for_status_sse L s = Inl e"
  shows "snd (iter_events L (pre @ s # post, ended)) = Some e"
  using assms by (induction pre) (simp_all add: raise_for_status_sse_other)

text \<open>
  Claim C3, as amended. In the loop of the streaming pipeline the in-band error check
  comes first: an event tagged \<^verbatim>\<open>error\<close> ends the sequence with a failure, whatever its
  data is. Every other event whose tag or whose data equals \<^verbatim>\<open>ping\<close> is dropped
  without being yielded and without a failure. The events yielded are exactly the
  surviving events before the first event tagged \<^verbatim>\<open>error\<close>, in their original order.
\<close>

theorem request_stream_filters:
  "check_stream_content_type resp \<longrightarrow>
     yielded (request_stream L resp (evs, ended))
       = filter (\<lambda>s. sse_event s \<noteq> ''ping'' \<and> sse_data s \<noteq> ''ping'')
           (takeWhile (\<lambda>s. sse_event s \<noteq> ''error'') evs)
     \<and> ((\<forall>s \<in> set evs. sse_event s \<noteq> ''error'') \<longrightarrow>
          raised (request_stream L resp (evs, ended)) = ended)
     \<and> (\<forall>pre s post.
          evs = pre @ s # post \<and> (\<forall>p \<in> set pre. sse_event p \<noteq> ''error'')
          \<and> sse_event s = ''error'' \<longrightarrow>
            (\<exists>e. raise_for_status_sse L s = Inl e
                 \<and> raised (request_stream L resp (evs, ended)) = Some e))"
proof (intro impI conjI allI)
  assume ok: "check_stream_content_type resp"
  then have y: "yielded (request_stream L resp (evs, ended)) = fst (iter_events L (evs, ended))"
    and r: "raised (request_stream L resp (evs, ended)) = snd (iter_events L (evs, ended))"
    by (simp_all add: request_stream_def)
  from y show "yielded (request_stream L resp (evs, ended))
       = filter (\<lambda>s. sse_event s \<noteq> ''ping'' \<and> sse_data s \<noteq> ''ping'')
           (takeWhile (\<lambda>s. sse_event s \<noteq> ''error'') evs)"
    by (simp only: iter_events_yielded)
  show "raised (request_stream L resp (evs, ended)) = ended"
    if "\<forall>s \<in> set evs. sse_event s \<noteq> ''error''"
    using that r by (simp only: iter_events_no_error)
  show "\<exists>e. raise_for_status_sse L s = Inl e
           \<and> raised (request_stream L resp (evs, ended)) = Some e"
    if h: "evs = pre @ s # post \<and> (\<forall>p \<in> set pre. sse_event p \<noteq> ''error'')
           \<and> sse_event s = ''error''" for pre s post
  proof -
    from h have tag: "sse_event s = ''error''" by blast
    from raise_for_status_sse_error [OF tag, of L]
    obtain e where e: "raise_for_status_sse L s = Inl e" ..
    from h have "\<forall>p \<in> set pre. sse_event p \<noteq> ''error''" by blast
    from iter_events_first_error [OF this e, of post ended] h r
    have "raised (request_stream L resp (evs, ended)) = Some e" by simp
    with e show ?thesis by blast
  qed
qed

text \<open>
  A stream of four events, two of them pings (one by tag, one by data), yields the other
  two in order and ends normally; a stream with an error event after one message yields
  the message and raises the failure of the error event.
\<close>

theorem request_stream_filters_witness:
  "check_stream_content_type
     \<lparr>status_code = 200, content_type = ''text/event-stream; charset=utf-8'', body = []\<rparr>
   \<and> ''error'' \<notin> sse_event ` set [\<lparr>sse_event = ''ping'', sse_data = []\<rparr>,
                  \<lparr>sse_event = ''message'', sse_data = ''a''\<rparr>,
                  \<lparr>sse_event = ''message'', sse_data = ''ping''\<rparr>,
                  \<lparr>sse_event = ''message_end'', sse_data = ''b''\<rparr>]
   \<and> request_stream sample_library
       \<lparr>status_code = 200, content_type = ''text/event-stream; charset=utf-8'', body = []\<rparr>
       ([\<lparr>sse_event = ''ping'', sse_data = []\<rparr>,
         \<lparr>sse_event = ''message'', sse_data = ''a''\<rparr>,
         \<lparr>sse_event = ''message'', sse_data = ''ping''\<rparr>,
         \<lparr>sse_event = ''message_end'', sse_data = ''b''\<rparr>], None)
     = \<lparr>yielded = [\<lparr>sse_event = ''message'', sse_data = ''a''\<rparr>,
                   \<lparr>sse_event = ''message_end'', sse_data = ''b''\<rparr>],
        raised = None, body_read = False, iter_sse_called = True\<rparr>
   \<and> request_stream sample_library
       \<lparr>status_code = 200, content_type = ''text/event-stream; charset=utf-8'', body = []\<rparr>
       ([\<lparr>sse_event = ''message'', sse_data = ''a''\<rparr>,
         \<lparr>sse_event = ''error'', sse_data = error_event_text\<rparr>,
         \<lparr>sse_event = ''message'', sse_data = ''c''\<rparr>], None)
     = \<lparr>yielded = [\<lparr>sse_event = ''message'', sse_data = ''a''\<rparr>],
        raised = Some (Dify \<lparr>kind = DifyInternalServerError, status = 500,
                            code = ''invalid_param'', message = ''bad''\<rparr>),
        body_read = False, iter_sse_called = True\<rparr>"
proof -
  define resp where
    "resp = \<lparr>status_code = 200, content_type = ''text/event-stream; charset=utf-8'', body = []\<rparr>"
  define evs1 where
    "evs1 = [\<lparr>sse_event = ''ping'', sse_data = []\<rparr>,
             \<lparr>sse_event = ''message'', sse_data = ''a''\<rparr>,
             \<lparr>sse_event = ''message'', sse_data = ''ping''\<rparr>,
             \<lparr>sse_event = ''message_end'', sse_data = ''b''\<rparr>]"
  define bad where "bad = \<lparr>sse_event = ''error'', sse_data = error_event_text\<rparr>"
  define evs2 where
    "evs2 = [\<lparr>sse_event = ''message'', sse_data = ''a''\<rparr>] @ bad #
            [\<lparr>sse_event = ''message'', sse_data = ''c''\<rparr>]"
  have ok: "check_stream_content_type resp"
    by (simp add: resp_def check_stream_content_type_def is_success_def get_content_type_def)
  have flags: "body_read (request_stream L resp src) = False
               \<and> iter_sse_called (request_stream L resp src) = True" for L src
    using ok by (simp add: request_stream_def)
  have eq: "x = \<lparr>yielded = yielded x, raised = raised x, body_read = body_read x,
                 iter_sse_called = iter_sse_called x\<rparr>" for x :: stream_run
    by simp
  have none: "\<forall>s \<in> set evs1. sse_event s \<noteq> ''error''"
    by (simp add: evs1_def)
  note t1 = request_stream_filters
              [where resp = resp and L = sample_library and evs = evs1 and ended = None,
               THEN mp, OF ok]
  from t1 none have r1: "raised (request_stream sample_library resp (evs1, None)) = None"
    by blast
  from t1 have y1: "yielded (request_stream sample_library resp (evs1, None))
                      = [\<lparr>sse_event = ''message'', sse_data = ''a''\<rparr>,
                         \<lparr>sse_event = ''message_end'', sse_data = ''b''\<rparr>]"
    by (simp add: evs1_def)
  have first: "request_stream sample_library resp (evs1, None)
     = \<lparr>yielded = [\<lparr>sse_event = ''message'', sse_data = ''a''\<rparr>,
                   \<lparr>sse_event = ''message_end'', sse_data = ''b''\<rparr>],
        raised = None, body_read = False, iter_sse_called = True\<rparr>"
    using eq [of "request_stream sample_library resp (evs1, None)"] r1 y1
      flags [of sample_library "(evs1, None)"]
    by simp
  note t2 = request_stream_filters
              [where resp = resp and L = sample_library and evs = evs2 and ended = None,
               THEN mp, OF ok]
  have tagged: "sse_event bad = ''error''"
    by (simp add: bad_def)
  have pre: "\<forall>p \<in> set [\<lparr>sse_event = ''message'', sse_data = ''a''\<rparr>]. sse_event p \<noteq> ''error''"
    by simp
  from t2 tagged pre
  obtain e where e: "raise_for_status_sse sample_library bad = Inl e"
    and r2: "raised (request_stream sample_library resp (evs2, None)) = Some e"
    unfolding evs2_def by blast
  have "raise_for_status_sse sample_library bad
          = Inl (Dify \<lparr>kind = DifyInternalServerError, status = 500,
                       code = ''invalid_param'', message = ''bad''\<rparr>)"
    unfolding bad_def
    by (simp add: raise_for_status_sse_def sample_library_def loads_sample_def
        ErrorStreamResponse_init_def model_init_def STREAM_EVENT_KEY_def dict_of_def
        str_to_enum_def StreamEvent_members_def ErrorResponse_fields_def
        StreamResponse_fields_def details_of_def raise_details_def new_error_def)
  with e r2 have r2': "raised (request_stream sample_library resp (evs2, None))
          = Some (Dify \<lparr>kind = DifyInternalServerError, status = 500,
                         code = ''invalid_param'', message = ''bad''\<rparr>)"
    by simp
  from t2 have y2: "yielded (request_stream sample_library resp (evs2, None))
                      = [\<lparr>sse_event = ''message'', sse_data = ''a''\<rparr>]"
    by (simp add: evs2_def bad_def)
  have second: "request_stream sample_library resp (evs2, None)
     = \<lparr>yielded = [\<lparr>sse_event = ''message'', sse_data = ''a''\<rparr>],
        raised = Some (Dify \<lparr>kind = DifyInternalServerError, status = 500,
                            code = ''invalid_param'', message = ''bad''\<rparr>),
        body_read = False, iter_sse_called = True\<rparr>"
    using eq [of "request_stream sample_library resp (evs2, None)"] r2' y2
      flags [of sample_library "(evs2, None)"]
    by simp
  from none have none': "''error'' \<notin> sse_event ` set evs1" by auto
  from ok none' first second show ?thesis
    unfolding resp_def evs1_def evs2_def bad_def by simp
qed

text \<open>
  Claim C3 as first stated fails: an event tagged \<^verbatim>\<open>error\<close> whose data is \<^verbatim>\<open>ping\<close>
  is not dropped. The error check runs before the test against the ignored events and
  decodes the data, which is not JSON, so the sequence ends with the decode failure.
\<close>

theorem request_stream_filters_counterexample:
  "request_stream sample_library
     \<lparr>status_code = 200, content_type = ''text/event-stream'', body = []\<rparr>
     ([\<lparr>sse_event = ''error'', sse_data = ''ping''\<rparr>], None)
   = \<lparr>yielded = [], raised = Some JSONDecodeError, body_read = False, iter_sse_called = True\<rparr>"
  by (simp add: request_stream_def check_stream_content_type_def is_success_def
      get_content_type_def raise_for_status_sse_def sample_library_def loads_sample_def
      error_event_text_def error_body_text_def)

section \<open>The content-type guard\<close>

lemma raise_for_status_response_fails:
  "\<not> is_success resp \<Longrightarrow> \<exists>e. raise_for_status_response L resp = Inl e"
  by (auto simp: raise_for_status_response_def Let_def
      split: option.splits json.splits sum.splits)

lemma raise_for_status_response_success:
  "is_success resp \<Longrightarrow> raise_for_status_response L resp = Inr ()"
  by (simp add: raise_for_status_response_def)

text \<open>
  Claim C4, as amended. For every streaming call whose HTTP response is not successful,
  before any SSE event is read the pipeline consumes the response body, runs it through
  the failure classifier and raises what the classifier raises, without reaching the SSE
  iteration; the failure is the typed one whenever the body decodes as an error payload.
  A successful response is never failed by the guard: when its content type (the part
  before any \<^verbatim>\<open>;\<close>) does not contain \<^verbatim>\<open>text/event-stream\<close> the body is consumed and the
  classifier returns normally, and the pipeline goes on to the SSE iteration; when it
  does, the pipeline goes to the SSE iteration without reading the body.
\<close>

theorem request_stream_guard:
  "(\<not> is_success resp \<longrightarrow>
      (\<exists>e. raise_for_status_response L resp = Inl e
           \<and> request_stream L resp source
               = \<lparr>yielded = [], raised = Some e, body_read = True, iter_sse_called = False\<rparr>))
   \<and> (\<not> is_success resp \<and> json_loads L (body resp) = Some (JObj kvs)
       \<and> ErrorResponse_init (validate L)
            (if dict_of kvs ''status'' = None
             then (dict_of kvs)(''status'' \<mapsto> JInt (status_code resp))
             else dict_of kvs) = Inr (st, c, m) \<longrightarrow>
      request_stream L resp source
        = \<lparr>yielded = [], raised = Some (Dify (raise_details st c m)), body_read = True,
           iter_sse_called = False\<rparr>)
   \<and> (is_success resp \<and> \<not> str_in ''text/event-stream'' (get_content_type resp) \<longrightarrow>
      request_stream L resp source
        = \<lparr>yielded = fst (iter_events L source), raised = snd (iter_events L source),
           body_read = True, iter_sse_called = True\<rparr>)
   \<and> (is_success resp \<and> str_in ''text/event-stream'' (get_content_type resp) \<longrightarrow>
      request_stream L resp source
        = \<lparr>yielded = fst (iter_events L source), raised = snd (iter_events L source),
           body_read = False, iter_sse_called = True\<rparr>)"
proof (intro conjI impI)
  assume bad: "\<not> is_success resp"
  from raise_for_status_response_fails [OF bad, of L]
  obtain e where e: "raise_for_status_response L resp = Inl e" ..
  with bad have "request_stream L resp source
               = \<lparr>yielded = [], raised = Some e, body_read = True, iter_sse_called = False\<rparr>"
    by (simp add: request_stream_def check_stream_content_type_def)
  with e show "\<exists>e. raise_for_status_response L resp = Inl e
           \<and> request_stream L resp source
               = \<lparr>yielded = [], raised = Some e, body_read = True, iter_sse_called = False\<rparr>"
    by blast
next
  assume h: "\<not> is_success resp \<and> json_loads L (body resp) = Some (JObj kvs)
       \<and> ErrorResponse_init (validate L)
            (if dict_of kvs ''status'' = None
             then (dict_of kvs)(''status'' \<mapsto> JInt (status_code resp))
             else dict_of kvs) = Inr (st, c, m)"
  then have "raise_for_status_response L resp = Inl (Dify (raise_details st c m))"
    by (simp add: raise_for_status_response_def Let_def)
  with h show "request_stream L resp source
        = \<lparr>yielded = [], raised = Some (Dify (raise_details st c m)), body_read = True,
           iter_sse_called = False\<rparr>"
    by (simp add: request_stream_def check_stream_content_type_def)
next
  assume "is_success resp \<and> \<not> str_in ''text/event-stream'' (get_content_type resp)"
  then show "request_stream L resp source
        = \<lparr>yielded = fst (iter_events L source), raised = snd (iter_events L source),
           body_read = True, iter_sse_called = True\<rparr>"
    by (simp add: request_stream_def check_stream_content_type_def
        raise_for_status_response_success)
next
  assume "is_success resp \<and> str_in ''text/event-stream'' (get_content_type resp)"
  then show "request_stream L resp source
        = \<lparr>yielded = fst (iter_events L source), raised = snd (iter_events L source),
           body_read = False, iter_sse_called = True\<rparr>"
    by (simp add: request_stream_def check_stream_content_type_def)
qed

text \<open>
  A status 400 with a JSON error body and the content type \<^verbatim>\<open>application/json\<close> raises
  the failure of the body's code, with the status taken from the status line, before the
  SSE iteration; a status 200 with the content type \<^verbatim>\<open>text/plain\<close> passes the guard with
  the body read; a status 200 with an event-stream content type is iterated at once.
\<close>

theorem request_stream_guard_witness:
  "\<not> is_success \<lparr>status_code = 400, content_type = ''application/json'', body = error_body_text\<rparr>
   \<and> request_stream sample_library
       \<lparr>status_code = 400, content_type = ''application/json'', body = error_body_text\<rparr>
       ([\<lparr>sse_event = ''message'', sse_data = ''a''\<rparr>], None)
     = \<lparr>yielded = [],
        raised = Some (Dify \<lparr>kind = DifyInvalidParam, status = 400, code = ''invalid_param'',
                            message = ''bad''\<rparr>),
        body_read = True, iter_sse_called = False\<rparr>
   \<and> is_success \<lparr>status_code = 200, content_type = ''text/plain'', body = []\<rparr>
   \<and> \<not> str_in ''text/event-stream''
         (get_content_type \<lparr>status_code = 200, content_type = ''text/plain'', body = []\<rparr>)
   \<and> request_stream sample_library
       \<lparr>status_code = 200, content_type = ''text/plain'', body = []\<rparr> ([], Some SSEError)
     = \<lparr>yielded = [], raised = Some SSEError, body_read = True, iter_sse_called = True\<rparr>
   \<and> str_in ''text/event-stream''
         (get_content_type \<lparr>status_code = 200, content_type = ''text/event-stream;x'', body = []\<rparr>)
   \<and> request_stream sample_library
       \<lparr>status_code = 200, content_type = ''text/event-stream;x'', body = []\<rparr> ([], None)
     = \<lparr>yielded = [], raised = None, body_read = False, iter_sse_called = True\<rparr>"
proof -
  define r1 where
    "r1 = \<lparr>status_code = 400, content_type = ''application/json'', body = error_body_text\<rparr>"
  define r2 where "r2 = \<lparr>status_code = 200, content_type = ''text/plain'', body = []\<rparr>"
  define r3 where
    "r3 = \<lparr>status_code = 200, content_type = ''text/event-stream;x'', body = []\<rparr>"
  define kvs where "kvs = [(''code'', JStr ''invalid_param''), (''message'', JStr ''bad'')]"
  have bad: "\<not> is_success r1"
    by (simp add: r1_def is_success_def)
  have js: "json_loads sample_library (body r1) = Some (JObj kvs)"
    by (simp add: r1_def sample_library_def loads_sample_def kvs_def error_event_text_def
        error_body_text_def)
  have det: "ErrorResponse_init (validate sample_library)
            (if dict_of kvs ''status'' = None
             then (dict_of kvs)(''status'' \<mapsto> JInt (status_code r1))
             else dict_of kvs) = Inr (400, ''invalid_param'', ''bad'')"
    by (simp add: ErrorResponse_init_def sample_library_def ErrorResponse_fields_def
        dict_of_def kvs_def details_of_def r1_def)
  have cls: "raise_details 400 ''invalid_param'' ''bad''
               = \<lparr>kind = DifyInvalidParam, status = 400, code = ''invalid_param'',
                  message = ''bad''\<rparr>"
    by (simp add: raise_details_def new_error_def SPEC_CODE_ERRORS_def)
  from request_stream_guard
         [where resp = r1 and L = sample_library and kvs = kvs and st = 400
            and c = "''invalid_param''" and m = "''bad''"
            and source = "([\<lparr>sse_event = ''message'', sse_data = ''a''\<rparr>], None)"]
       bad js det
  have "request_stream sample_library r1
                 ([\<lparr>sse_event = ''message'', sse_data = ''a''\<rparr>], None)
     = \<lparr>yielded = [], raised = Some (Dify (raise_details 400 ''invalid_param'' ''bad'')),
        body_read = True, iter_sse_called = False\<rparr>"
    by blast
  then have first: "request_stream sample_library r1
                 ([\<lparr>sse_event = ''message'', sse_data = ''a''\<rparr>], None)
     = \<lparr>yielded = [],
        raised = Some (Dify \<lparr>kind = DifyInvalidParam, status = 400, code = ''invalid_param'',
                            message = ''bad''\<rparr>),
        body_read = True, iter_sse_called = False\<rparr>"
    by (simp only: cls)
  have s2: "is_success r2"
    by (simp add: r2_def is_success_def)
  have n2: "\<not> str_in ''text/event-stream'' (get_content_type r2)"
    by (simp add: r2_def get_content_type_def)
  from request_stream_guard
         [where resp = r2 and L = sample_library and source = "([], Some SSEError)"] s2 n2
  have second: "request_stream sample_library r2 ([], Some SSEError)
     = \<lparr>yielded = [], raised = Some SSEError, body_read = True, iter_sse_called = True\<rparr>"
    by simp
  have s3: "is_success r3"
    by (simp add: r3_def is_success_def)
  have y3: "str_in ''text/event-stream'' (get_content_type r3)"
    by (simp add: r3_def get_content_type_def)
  from request_stream_guard
         [where resp = r3 and L = sample_library and source = "([], None)"] s3 y3
  have third: "request_stream sample_library r3 ([], None)
     = \<lparr>yielded = [], raised = None, body_read = False, iter_sse_called = True\<rparr>"
    by simp
  from bad first s2 n2 second y3 third show ?thesis
    unfolding r1_def r2_def r3_def by blast
qed

text \<open>
  Claim C4 as first stated fails: for a response with status 200 and the content type
  \<^verbatim>\<open>application/json\<close> the guard reads the body and calls the classifier, which returns
  without raising because the response is successful; the pipeline then enters the SSE
  iteration, and the failure that ends the run is the transport's own, not a typed one.
\<close>

theorem request_stream_guard_counterexample:
  "request_stream sample_library
     \<lparr>status_code = 200, content_type = ''application/json'', body = error_body_text\<rparr>
     ([], Some SSEError)
   = \<lparr>yielded = [], raised = Some SSEError, body_read = True, iter_sse_called = True\<rparr>"
  by (simp add: request_stream_def check_stream_content_type_def is_success_def
      get_content_type_def raise_for_status_response_def)

end
